theory Spec2Isabelle
  imports
    Complex_Main
    "HOL-Library.FSet"
    "HOL-Library.AList"
    "HOL-Library.List_Lexorder"
    "HOL-Library.Char_ord"
begin

section \<open>Python values shared by the model\<close>

text \<open>
  A Python \<^verbatim>\<open>dict\<close> is an association list in iteration order; the dictionary it
  denotes is \<open>map_of\<close> of the list, so a later binding of a key that is already bound is
  shadowed. Iteration (\<^verbatim>\<open>items()\<close>, \<^verbatim>\<open>values()\<close>, keys) visits each key once.
  A Python \<^verbatim>\<open>set\<close> or \<^verbatim>\<open>frozenset\<close> of strings is a finite set \<open>string fset\<close>.
\<close>

type_synonym ('k, 'v) dict = "('k \<times> 'v) list"

definition dict_get :: "('k, 'v) dict \<Rightarrow> 'k \<Rightarrow> 'v option" where
  "dict_get d k = map_of d k"

definition dict_items :: "('k, 'v) dict \<Rightarrow> ('k \<times> 'v) list" where
  "dict_items d = AList.clearjunk d"

definition dict_keys :: "('k, 'v) dict \<Rightarrow> 'k list" where
  "dict_keys d = map fst (dict_items d)"

definition dict_values :: "('k, 'v) dict \<Rightarrow> 'v list" where
  "dict_values d = map snd (dict_items d)"

definition dict_contains :: "'k \<Rightarrow> ('k, 'v) dict \<Rightarrow> bool" where
  "dict_contains k d = (dict_get d k \<noteq> None)"

text \<open>The exceptions the modelled code raises, explicitly or through a failed lookup.\<close>

datatype validation_failure =
    MissingRequiredKeys "string list"
  | StartRoomDoesNotExist
  | InvalidExit string string
  | MissingCoordinates string
  | NotExactlyOneVillain
  | LevelNotSolvable

datatype error =
    LevelValidationError validation_failure
  | KeyError string
  | ValueError string
  | AttributeError string
  | TypeError string
  | ZeroDivisionError

section \<open>Domain model\<close>

datatype GameStatus = IN_PROGRESS | COMPLETED | GAME_OVER

fun status_value :: "GameStatus \<Rightarrow> string" where
  "status_value IN_PROGRESS = ''in_progress''"
| "status_value COMPLETED = ''completed''"
| "status_value GAME_OVER = ''game_over''"

definition is_terminal :: "GameStatus \<Rightarrow> bool" where
  "is_terminal s = (s = COMPLETED \<or> s = GAME_OVER)"

text \<open>
  \<^verbatim>\<open>Item\<close> and its subclasses \<^verbatim>\<open>Relic\<close> and \<^verbatim>\<open>Villain\<close>; every variant carries
  the \<^verbatim>\<open>name\<close> field of the base dataclass.
\<close>

datatype Item = BaseItem string | Relic string | Villain string

fun item_name :: "Item \<Rightarrow> string" where
  "item_name (BaseItem n) = n"
| "item_name (Relic n) = n"
| "item_name (Villain n) = n"

fun is_Villain :: "Item option \<Rightarrow> bool" where
  "is_Villain (Some (Villain n)) = True"
| "is_Villain _ = False"

record Room =
  room_name :: string
  exits :: "(string, string) dict"
  item :: "Item option"

record MapGraph =
  rooms :: "(string, Room) dict"
  coords :: "(string, int list) dict"

record Player =
  location :: string
  inventory :: "string fset"

text \<open>Timestamps are abstract clock readings.\<close>

type_synonym datetime = nat

record GameState =
  player :: Player
  visited_rooms :: "string fset"
  collected_items :: "string fset"
  move_count :: int
  status :: GameStatus
  message :: "string option"
  event_log :: "string list"
  started_at :: datetime
  updated_at :: datetime
  encountered_villain :: bool

subsection \<open>Item hooks\<close>

fun on_enter :: "Item \<Rightarrow> GameState \<Rightarrow> GameState" where
  "on_enter (BaseItem n) state = state"
| "on_enter (Relic n) state =
     state\<lparr>collected_items := finsert n (collected_items state),
           event_log := event_log state @ [''Collected '' @ n]\<rparr>"
| "on_enter (Villain n) state =
     state\<lparr>encountered_villain := True,
           event_log := event_log state @ [''Encountered the villain'']\<rparr>"

subsection \<open>Rules\<close>

record StandardRules =
  required_items :: "string fset"

definition check :: "StandardRules \<Rightarrow> GameState \<Rightarrow> Room \<Rightarrow> GameState" where
  "check self state room =
     (if is_Villain (item room) then
        (if required_items self |\<subseteq>| collected_items state
         then state\<lparr>status := COMPLETED, message := Some ''You defeated the villain!''\<rparr>
         else state\<lparr>status := GAME_OVER, message := Some ''You found the villain too soon.''\<rparr>)
      else state)"


subsection \<open>Map graph\<close>

text \<open>
  \<^verbatim>\<open>MapGraph.move\<close> and \<^verbatim>\<open>MapGraph.neighbors\<close> index \<^verbatim>\<open>self.rooms\<close> with the
  room name, which raises \<^verbatim>\<open>KeyError\<close> for a name that is not a room.
\<close>

definition move_graph :: "MapGraph \<Rightarrow> string \<Rightarrow> string \<Rightarrow> error + string option" where
  "move_graph map_graph current_room direction =
     (case dict_get (rooms map_graph) current_room of
        None \<Rightarrow> Inl (KeyError current_room)
      | Some r \<Rightarrow> Inr (dict_get (exits r) direction))"

definition neighbors :: "MapGraph \<Rightarrow> string \<Rightarrow> error + (string, string) dict" where
  "neighbors map_graph rn =
     (case dict_get (rooms map_graph) rn of
        None \<Rightarrow> Inl (KeyError rn)
      | Some r \<Rightarrow> Inr (exits r))"

section \<open>Level validation and the solvability search\<close>

subsection \<open>Raw level definitions\<close>

text \<open>
  The raw definition dictionary. A top-level key may be absent (\<open>None\<close>); inside a room
  the keys \<^verbatim>\<open>exits\<close> and \<^verbatim>\<open>item\<close> may be absent, and \<^verbatim>\<open>item\<close> may be \<^verbatim>\<open>None\<close>.
\<close>

record ItemDef =
  item_type :: string
  item_def_name :: string

record RoomDef =
  def_exits :: "(string, string) dict option"
  def_item :: "ItemDef option"

record RulesDef =
  def_required_items :: "string list"

record LevelDef =
  def_id :: "string option"
  def_name :: "string option"
  def_difficulty :: "string option"
  def_start_room :: "string option"
  def_rooms :: "(string, RoomDef) dict option"
  def_coords :: "(string, int list) dict option"
  def_rules :: "RulesDef option"

definition absent :: "string \<Rightarrow> 'a option \<Rightarrow> string list" where
  "absent key v = (case v of None \<Rightarrow> [key] | Some x \<Rightarrow> [])"

definition missing_keys :: "LevelDef \<Rightarrow> string list" where
  "missing_keys defn =
     absent ''id'' (def_id defn) @ absent ''name'' (def_name defn) @
     absent ''difficulty'' (def_difficulty defn) @ absent ''start_room'' (def_start_room defn) @
     absent ''rooms'' (def_rooms defn) @ absent ''coords'' (def_coords defn) @
     absent ''rules'' (def_rules defn)"

definition exits_or_empty :: "RoomDef \<Rightarrow> (string, string) dict" where
  "exits_or_empty data = (case def_exits data of None \<Rightarrow> [] | Some e \<Rightarrow> e)"

fun validate_targets :: "(string, RoomDef) dict \<Rightarrow> string \<Rightarrow> string list \<Rightarrow> error + unit" where
  "validate_targets rms room [] = Inr ()"
| "validate_targets rms room (target # targets) =
     (if \<not> dict_contains target rms
      then Inl (LevelValidationError (InvalidExit room target))
      else validate_targets rms room targets)"

fun validate_exits :: "(string, RoomDef) dict \<Rightarrow> (string \<times> RoomDef) list \<Rightarrow> error + unit" where
  "validate_exits rms [] = Inr ()"
| "validate_exits rms ((room, data) # rest) =
     (case validate_targets rms room (dict_values (exits_or_empty data)) of
        Inl e \<Rightarrow> Inl e
      | Inr u \<Rightarrow> validate_exits rms rest)"

fun validate_coords :: "(string, int list) dict \<Rightarrow> string list \<Rightarrow> error + unit" where
  "validate_coords cs [] = Inr ()"
| "validate_coords cs (room # rest) =
     (if \<not> dict_contains room cs
      then Inl (LevelValidationError (MissingCoordinates room))
      else validate_coords cs rest)"

definition holds_villain :: "RoomDef \<Rightarrow> bool" where
  "holds_villain r = (case def_item r of None \<Rightarrow> False | Some i \<Rightarrow> item_type i = ''villain'')"

definition villains :: "(string, RoomDef) dict \<Rightarrow> RoomDef list" where
  "villains rms = filter holds_villain (dict_values rms)"

text \<open>
  The five checks in the order of the source. Once no key is missing, the last branch of
  the \<open>case\<close> cannot be taken; it stands for the \<^verbatim>\<open>KeyError\<close> of \<^verbatim>\<open>defn["rooms"]\<close>.
\<close>

definition validate_level_definition :: "LevelDef \<Rightarrow> error + unit" where
  "validate_level_definition defn =
     (if missing_keys defn \<noteq> []
      then Inl (LevelValidationError (MissingRequiredKeys (missing_keys defn)))
      else
        (case (def_rooms defn, def_start_room defn, def_coords defn) of
           (Some rms, Some start, Some cs) \<Rightarrow>
             if \<not> dict_contains start rms
             then Inl (LevelValidationError StartRoomDoesNotExist)
             else
               (case validate_exits rms (dict_items rms) of
                  Inl e \<Rightarrow> Inl e
                | Inr u \<Rightarrow>
                    (case validate_coords cs (dict_keys rms) of
                       Inl e \<Rightarrow> Inl e
                     | Inr u' \<Rightarrow>
                         if length (villains rms) \<noteq> 1
                         then Inl (LevelValidationError NotExactlyOneVillain)
                         else Inr ()))
         | _ \<Rightarrow> Inl (KeyError ''rooms'')))"

subsection \<open>Breadth-first search over (room, collected items)\<close>

type_synonym bfs_state = "string \<times> string fset"

text \<open>\<^verbatim>\<open>if item and item.name in required_items: items = items | {item.name}\<close>\<close>

definition collect :: "string fset \<Rightarrow> Item option \<Rightarrow> string fset \<Rightarrow> string fset" where
  "collect required it items =
     (case it of
        None \<Rightarrow> items
      | Some i \<Rightarrow> if item_name i |\<in>| required then items |\<union>| {|item_name i|} else items)"

text \<open>\<^verbatim>\<open>item and item.name == "Villain" and items >= required_items\<close>\<close>

definition goal :: "string fset \<Rightarrow> Item option \<Rightarrow> string fset \<Rightarrow> bool" where
  "goal required it items =
     (case it of
        None \<Rightarrow> False
      | Some i \<Rightarrow> item_name i = ''Villain'' \<and> required |\<subseteq>| items)"

text \<open>
  The finite universe that bounds the search: rooms of the map paired with sets of names
  drawn from the items of the map and from the item sets already in the queue.
\<close>

definition item_names :: "MapGraph \<Rightarrow> string set" where
  "item_names m = {item_name i | i r. r \<in> snd ` set (rooms m) \<and> item r = Some i}"

definition queue_names :: "(string \<times> string fset \<times> int) list \<Rightarrow> string set" where
  "queue_names queue = (\<Union>(r, i, d) \<in> set queue. fset i)"

definition bfs_universe :: "MapGraph \<Rightarrow> (string \<times> string fset \<times> int) list \<Rightarrow> bfs_state set" where
  "bfs_universe m queue =
     {(room, items). room \<in> fst ` set (rooms m) \<and>
        fset items \<subseteq> item_names m \<union> queue_names queue}"

definition bfs_measure ::
  "MapGraph \<times> string fset \<times> bfs_state set \<times> (string \<times> string fset \<times> int) list \<Rightarrow> nat \<times> nat" where
  "bfs_measure = (\<lambda>(m, req, visited, queue). (card (bfs_universe m queue - visited), length queue))"

lemma queue_names_Cons: "queue_names ((r, i, d) # q) = fset i \<union> queue_names q"
  by (simp add: queue_names_def)

lemma queue_names_append: "queue_names (q @ q') = queue_names q \<union> queue_names q'"
  by (simp add: queue_names_def)

lemma queue_names_map: "queue_names (map (\<lambda>nxt. (nxt, i, d)) xs) \<subseteq> fset i"
  by (auto simp: queue_names_def)

lemma finite_queue_names: "finite (queue_names q)"
  by (auto simp: queue_names_def)

lemma bfs_universe_mono:
  "item_names m \<union> queue_names q' \<subseteq> item_names m \<union> queue_names q \<Longrightarrow>
   bfs_universe m q' \<subseteq> bfs_universe m q"
  unfolding bfs_universe_def by blast

lemma finite_item_names: "finite (item_names m)"
proof -
  have "item_names m \<subseteq>
          (\<lambda>r. case item r of Some i \<Rightarrow> item_name i | None \<Rightarrow> []) ` snd ` set (rooms m)"
    by (force simp: item_names_def)
  then show ?thesis by (rule finite_subset) simp
qed

lemma finite_fsets_over:
  assumes "finite A"
  shows "finite {s. fset s \<subseteq> A}"
proof -
  have "{s. fset s \<subseteq> A} \<subseteq> Abs_fset ` Pow A"
  proof
    fix s assume "s \<in> {s. fset s \<subseteq> A}"
    then have "fset s \<in> Pow A" by simp
    then have "Abs_fset (fset s) \<in> Abs_fset ` Pow A" by (rule imageI)
    then show "s \<in> Abs_fset ` Pow A" by (simp add: fset_inverse)
  qed
  then show ?thesis using assms by (meson finite_Pow_iff finite_imageI finite_subset)
qed

lemma finite_bfs_universe: "finite (bfs_universe m queue)"
proof -
  let ?N = "item_names m \<union> queue_names queue"
  have "finite ?N" by (simp add: finite_item_names finite_queue_names)
  then have "finite (fst ` set (rooms m) \<times> {s. fset s \<subseteq> ?N})"
    by (intro finite_cartesian_product finite_fsets_over) simp_all
  moreover have "bfs_universe m queue \<subseteq> fst ` set (rooms m) \<times> {s. fset s \<subseteq> ?N}"
    by (auto simp: bfs_universe_def)
  ultimately show ?thesis by (rule rev_finite_subset)
qed

lemma collect_subset:
  "dict_get (rooms m) room = Some r \<Longrightarrow>
   fset (collect req (item r) items) \<subseteq> item_names m \<union> fset items"
  apply (auto simp: collect_def item_names_def dict_get_def split: option.splits if_splits)
  by (metis map_of_SomeD snd_conv)

text \<open>
  The \<^verbatim>\<open>while queue:\<close> loop of \<^verbatim>\<open>compute_optimal_moves\<close>. The queue holds
  \<open>(room, items, dst)\<close> (\<^verbatim>\<open>dist\<close> in the source); \<open>visited\<close> holds the \<open>(room, items)\<close> pairs already dequeued.
\<close>

function bfs ::
  "MapGraph \<Rightarrow> string fset \<Rightarrow> bfs_state set \<Rightarrow> (string \<times> string fset \<times> int) list \<Rightarrow> error + int"
where
  "bfs map_graph required visited [] = Inl (LevelValidationError LevelNotSolvable)"
| "bfs map_graph required visited ((room, items, dst) # queue) =
     (if (room, items) \<in> visited then bfs map_graph required visited queue
      else
        (case dict_get (rooms map_graph) room of
           None \<Rightarrow> Inl (KeyError room)
         | Some r \<Rightarrow>
             let items' = collect required (item r) items in
             if goal required (item r) items' then Inr dst
             else
               (case neighbors map_graph room of
                  Inl e \<Rightarrow> Inl e
                | Inr nbrs \<Rightarrow>
                    bfs map_graph required (insert (room, items) visited)
                      (queue @ map (\<lambda>nxt. (nxt, items', dst + 1)) (dict_values nbrs)))))"
  by pat_completeness auto

termination
proof (relation "inv_image (less_than <*lex*> less_than) bfs_measure", goal_cases)
  case 1
  show ?case by (intro wf_inv_image wf_lex_prod wf_less_than)
next
  case (2 map_graph required visited room items dst queue)
  have "bfs_universe map_graph queue \<subseteq> bfs_universe map_graph ((room, items, dst) # queue)"
    by (rule bfs_universe_mono) (auto simp: queue_names_Cons)
  then have "card (bfs_universe map_graph queue - visited)
        \<le> card (bfs_universe map_graph ((room, items, dst) # queue) - visited)"
    by (intro card_mono finite_Diff finite_bfs_universe) auto
  then show ?case by (auto simp: bfs_measure_def)
next
  case (3 map_graph required visited room items dst queue r items' nbrs)
  let ?q = "(room, items, dst) # queue"
  let ?q' = "queue @ map (\<lambda>nxt. (nxt, items', dst + 1)) (dict_values nbrs)"
  have r: "dict_get (rooms map_graph) room = Some r" using 3 by simp
  have sub: "fset items' \<subseteq> item_names map_graph \<union> fset items"
    using collect_subset[OF r] 3 by simp
  have "queue_names ?q' \<subseteq> fset items' \<union> queue_names queue"
    using queue_names_map[of items' "dst + 1" "dict_values nbrs"]
    by (auto simp: queue_names_append)
  then have U: "bfs_universe map_graph ?q' \<subseteq> bfs_universe map_graph ?q"
    using sub by (intro bfs_universe_mono) (auto simp: queue_names_Cons)
  have "room \<in> fst ` set (rooms map_graph)"
    using r by (metis dict_get_def map_of_SomeD fst_conv image_eqI)
  then have mem: "(room, items) \<in> bfs_universe map_graph ?q"
    by (auto simp: bfs_universe_def queue_names_Cons)
  have "bfs_universe map_graph ?q' - insert (room, items) visited
          \<subset> bfs_universe map_graph ?q - visited"
    using U mem 3(1) by blast
  then have "card (bfs_universe map_graph ?q' - insert (room, items) visited)
          < card (bfs_universe map_graph ?q - visited)"
    by (intro psubset_card_mono finite_Diff finite_bfs_universe)
  then show ?case by (simp add: bfs_measure_def)
qed

definition compute_optimal_moves :: "MapGraph \<Rightarrow> string \<Rightarrow> string fset \<Rightarrow> error + int" where
  "compute_optimal_moves map_graph start required =
     bfs map_graph required {} [(start, {||}, 0)]"

text \<open>
  The invariant of a validated map: every exit of every room leads to a room of the map.
\<close>

definition closed_map :: "MapGraph \<Rightarrow> bool" where
  "closed_map m =
     (\<forall>(n, r) \<in> set (rooms m). \<forall>t \<in> set (dict_values (exits r)). dict_contains t (rooms m))"

subsection \<open>What the search explores\<close>

text \<open>
  A search state is a room and the names gathered before its own item is looked at. One
  step follows an exit and gathers the item of the room left behind; a state is solved when
  the goal test of the loop succeeds in it. \<open>trace\<close> follows a list of directions.
\<close>

definition step :: "MapGraph \<Rightarrow> string fset \<Rightarrow> bfs_state \<Rightarrow> bfs_state \<Rightarrow> bool" where
  "step m req s s' =
     (case dict_get (rooms m) (fst s) of
        None \<Rightarrow> False
      | Some room \<Rightarrow>
          fst s' \<in> set (dict_values (exits room)) \<and>
          snd s' = collect req (item room) (snd s))"

definition solved :: "MapGraph \<Rightarrow> string fset \<Rightarrow> bfs_state \<Rightarrow> bool" where
  "solved m req s =
     (case dict_get (rooms m) (fst s) of
        None \<Rightarrow> False
      | Some room \<Rightarrow> goal req (item room) (collect req (item room) (snd s)))"

fun trace :: "MapGraph \<Rightarrow> string fset \<Rightarrow> bfs_state \<Rightarrow> string list \<Rightarrow> bfs_state option" where
  "trace m req s [] = Some s"
| "trace m req s (d # ds) =
     (case dict_get (rooms m) (fst s) of
        None \<Rightarrow> None
      | Some room \<Rightarrow>
          (case dict_get (exits room) d of
             None \<Rightarrow> None
           | Some nxt \<Rightarrow> trace m req (nxt, collect req (item room) (snd s)) ds))"

definition reach :: "MapGraph \<Rightarrow> string fset \<Rightarrow> string \<Rightarrow> nat \<Rightarrow> bfs_state \<Rightarrow> bool" where
  "reach m req start k s = (\<exists>ds. length ds = k \<and> trace m req (start, {||}) ds = Some s)"

definition search_wins :: "MapGraph \<Rightarrow> string fset \<Rightarrow> string \<Rightarrow> string list \<Rightarrow> bool" where
  "search_wins m req start ds =
     (case trace m req (start, {||}) ds of None \<Rightarrow> False | Some s \<Rightarrow> solved m req s)"

text \<open>The invariant of the loop: the queue holds at most two consecutive distances, in order;
  every state closer than the head of the queue has been dequeued; none of the dequeued
  states is solved, and their successors are dequeued or queued.\<close>

type_synonym bfs_queue = "(string \<times> string fset \<times> int) list"

definition qstates :: "bfs_queue \<Rightarrow> bfs_state set" where
  "qstates Q = (\<lambda>(r, i, d). (r, i)) ` set Q"

definition qdists :: "bfs_queue \<Rightarrow> int list" where
  "qdists Q = map (\<lambda>(r, i, d). d) Q"

definition base_inv ::
  "MapGraph \<Rightarrow> string fset \<Rightarrow> string \<Rightarrow> bfs_state set \<Rightarrow> bfs_queue \<Rightarrow> bool" where
  "base_inv m req start V Q =
     ((\<forall>(r, i, d) \<in> set Q. 0 \<le> d \<and> reach m req start (nat d) (r, i)) \<and>
      (\<forall>s \<in> V. \<not> solved m req s \<and> (\<forall>s'. step m req s s' \<longrightarrow> s' \<in> V \<or> s' \<in> qstates Q)))"

definition level_inv ::
  "MapGraph \<Rightarrow> string fset \<Rightarrow> string \<Rightarrow> int \<Rightarrow> bfs_state set \<Rightarrow> bfs_queue \<Rightarrow> bool" where
  "level_inv m req start D V Q =
     (0 \<le> D \<and> (\<forall>d \<in> set (qdists Q). d = D \<or> d = D + 1) \<and> sorted (qdists Q) \<and>
      (\<forall>k s. int k < D \<longrightarrow> reach m req start k s \<longrightarrow> s \<in> V) \<and>
      (\<forall>s. reach m req start (nat D) s \<longrightarrow> s \<in> V \<or> (fst s, snd s, D) \<in> set Q))"

definition bfs_inv ::
  "MapGraph \<Rightarrow> string fset \<Rightarrow> string \<Rightarrow> bfs_state set \<Rightarrow> bfs_queue \<Rightarrow> bool" where
  "bfs_inv m req start V Q = (base_inv m req start V Q \<and> (\<exists>D. level_inv m req start D V Q))"

section \<open>Levels, difficulty and scoring\<close>

datatype Difficulty = EASY | MEDIUM | HARD

definition Difficulty_of_value :: "string \<Rightarrow> error + Difficulty" where
  "Difficulty_of_value v =
     (if v = ''easy'' then Inr EASY
      else if v = ''medium'' then Inr MEDIUM
      else if v = ''hard'' then Inr HARD
      else Inl (ValueError v))"

text \<open>
  The value of \<^verbatim>\<open>level.difficulty\<close> as a Python object: a \<^verbatim>\<open>str\<close> or a member of
  the plain \<^verbatim>\<open>Enum\<close> class \<^verbatim>\<open>Difficulty\<close>. A member of a plain \<^verbatim>\<open>Enum\<close> is equal
  only to itself, never to its value, so the two constructors are distinct dictionary keys.
\<close>

datatype pyobj = PyStr string | PyDifficulty Difficulty

datatype ScoreStrategy = StandardScore | MaxMovesScore

datatype VisibilityPolicy = EasyVisibility | MediumVisibility | HardVisibility

text \<open>
  \<^verbatim>\<open>Difficulty.scoring_policy\<close> and \<^verbatim>\<open>Difficulty.visibility_policy\<close> are plain
  methods (\<^verbatim>\<open>def scoring_policy(self)\<close>, with no \<^verbatim>\<open>@property\<close>). Calling one yields a
  strategy object; the attribute alone, \<^verbatim>\<open>difficulty.scoring_policy\<close>, is the bound
  method. A \<^verbatim>\<open>Level\<close> field holds one or the other.
\<close>

fun scoring_policy :: "Difficulty \<Rightarrow> ScoreStrategy" where
  "scoring_policy EASY = StandardScore"
| "scoring_policy MEDIUM = StandardScore"
| "scoring_policy HARD = MaxMovesScore"

fun visibility_policy :: "Difficulty \<Rightarrow> VisibilityPolicy" where
  "visibility_policy EASY = EasyVisibility"
| "visibility_policy MEDIUM = MediumVisibility"
| "visibility_policy HARD = HardVisibility"

datatype scoring_attr = ScoreStrategyObject ScoreStrategy | BoundScoringPolicy Difficulty

datatype visibility_attr = VisibilityPolicyObject VisibilityPolicy | BoundVisibilityPolicy Difficulty

record Level =
  level_id :: string
  level_name :: string
  difficulty :: pyobj
  start_room :: string
  level_map :: MapGraph
  rules :: StandardRules
  visibility :: visibility_attr
  scoring :: scoring_attr
  optimal_moves :: "int option"

subsection \<open>LevelFactory.from_definition\<close>

definition build_item :: "ItemDef option \<Rightarrow> error + Item option" where
  "build_item item_def =
     (case item_def of
        None \<Rightarrow> Inr None
      | Some d \<Rightarrow>
          if item_type d = ''relic'' then Inr (Some (Relic (item_def_name d)))
          else if item_type d = ''villain'' then Inr (Some (Villain (item_def_name d)))
          else Inl (ValueError (item_type d)))"

fun build_rooms :: "(string \<times> RoomDef) list \<Rightarrow> error + (string, Room) dict" where
  "build_rooms [] = Inr []"
| "build_rooms ((name, data) # rest) =
     (case build_item (def_item data) of
        Inl e \<Rightarrow> Inl e
      | Inr it \<Rightarrow>
          (case build_rooms rest of
             Inl e \<Rightarrow> Inl e
           | Inr rs \<Rightarrow>
               Inr ((name, \<lparr>room_name = name, exits = exits_or_empty data, item = it\<rparr>) # rs)))"

text \<open>
  Validation, then the rooms, the map, the required items, the search, the difficulty and
  the level, in the order of the source. The fields \<open>visibility\<close> and \<open>scoring\<close> receive
  \<^verbatim>\<open>difficulty.visibility_policy\<close> and \<^verbatim>\<open>difficulty.scoring_policy\<close>, the methods
  themselves. After validation every key is present, so the last branch cannot be taken.
\<close>

definition from_definition :: "LevelDef \<Rightarrow> error + Level" where
  "from_definition defn =
     (case validate_level_definition defn of
        Inl e \<Rightarrow> Inl e
      | Inr u \<Rightarrow>
          (case (def_id defn, def_name defn, def_difficulty defn, def_start_room defn,
                 def_rooms defn, def_coords defn, def_rules defn) of
             (Some i, Some n, Some dv, Some start, Some rms, Some cs, Some ru) \<Rightarrow>
               (case build_rooms (dict_items rms) of
                  Inl e \<Rightarrow> Inl e
                | Inr rs \<Rightarrow>
                    let map_graph = \<lparr>rooms = rs, coords = dict_items cs\<rparr>;
                        required = fset_of_list (def_required_items ru)
                    in
                      (case compute_optimal_moves map_graph start required of
                         Inl e \<Rightarrow> Inl e
                       | Inr opt \<Rightarrow>
                           (case Difficulty_of_value dv of
                              Inl e \<Rightarrow> Inl e
                            | Inr dif \<Rightarrow>
                                Inr \<lparr>level_id = i, level_name = n,
                                     difficulty = PyDifficulty dif, start_room = start,
                                     level_map = map_graph,
                                     rules = \<lparr>required_items = required\<rparr>,
                                     visibility = BoundVisibilityPolicy dif,
                                     scoring = BoundScoringPolicy dif,
                                     optimal_moves = Some opt\<rparr>)))
           | _ \<Rightarrow> Inl (KeyError ''id'')))"

subsection \<open>Scoring strategies\<close>

text \<open>
  Python floats are modelled by exact reals. \<^verbatim>\<open>int(x)\<close> truncates toward zero.
\<close>

definition py_int :: "real \<Rightarrow> int" where
  "py_int x = (if 0 \<le> x then \<lfloor>x\<rfloor> else \<lceil>x\<rceil>)"

definition WIN_BASE :: int where "WIN_BASE = 1000"
definition MAX_PROGRESS_SCORE :: int where "MAX_PROGRESS_SCORE = 500"
definition MAX_EFFICIENCY_SCORE :: int where "MAX_EFFICIENCY_SCORE = 1000"
definition OVERAGE_PENALTY_FACTOR :: real where "OVERAGE_PENALTY_FACTOR = 1 / 2"

definition DIFFICULTY_MULTIPLIER :: "(pyobj, real) dict" where
  "DIFFICULTY_MULTIPLIER =
     [(PyStr ''easy'', 3 / 4), (PyStr ''medium'', 1), (PyStr ''hard'', 5 / 4)]"

definition progress_score :: "GameState \<Rightarrow> Level \<Rightarrow> int" where
  "progress_score state level =
     (let collected = int (fcard (collected_items state));
          total_required = int (fcard (required_items (rules level)));
          progress = (if total_required \<noteq> 0
                      then real_of_int collected / real_of_int total_required else 0)
      in py_int (real_of_int MAX_PROGRESS_SCORE * progress))"

definition StandardScore_calculate :: "GameState \<Rightarrow> Level \<Rightarrow> error + int" where
  "StandardScore_calculate state level =
     (if status state \<noteq> COMPLETED then Inr (progress_score state level)
      else
        (case optimal_moves level of
           None \<Rightarrow> Inl (TypeError ''optimal_moves'')
         | Some opt \<Rightarrow>
             if move_count state = 0 then Inl ZeroDivisionError
             else
               let efficiency = min (real_of_int opt / real_of_int (move_count state)) 1;
                   efficiency_score = py_int (real_of_int MAX_EFFICIENCY_SCORE * efficiency)
               in
                 (case dict_get DIFFICULTY_MULTIPLIER (difficulty level) of
                    None \<Rightarrow> Inl (KeyError ''difficulty'')
                  | Some multiplier \<Rightarrow>
                      Inr (py_int (real_of_int (WIN_BASE + progress_score state level)
                                   + real_of_int efficiency_score * multiplier)))))"

definition MaxMovesScore_calculate :: "GameState \<Rightarrow> Level \<Rightarrow> error + int" where
  "MaxMovesScore_calculate state level =
     (case StandardScore_calculate state level of
        Inl e \<Rightarrow> Inl e
      | Inr base_score \<Rightarrow>
          if status state \<noteq> COMPLETED then Inr base_score
          else
            (case optimal_moves level of
               None \<Rightarrow> Inr base_score
             | Some opt \<Rightarrow>
                 if move_count state \<le> opt then Inr base_score
                 else if opt = 0 then Inl ZeroDivisionError
                 else
                   let overage = move_count state - opt;
                       penalty_ratio = min (real_of_int overage / real_of_int opt) 1;
                       penalty = py_int (real_of_int base_score * penalty_ratio
                                         * OVERAGE_PENALTY_FACTOR)
                   in Inr (max (base_score - penalty) 0)))"

fun calculate :: "ScoreStrategy \<Rightarrow> GameState \<Rightarrow> Level \<Rightarrow> error + int" where
  "calculate StandardScore state level = StandardScore_calculate state level"
| "calculate MaxMovesScore state level = MaxMovesScore_calculate state level"

section \<open>Game controller\<close>

record GameSave =
  save_user_email :: string
  save_level_id :: string
  save_state :: GameState
  save_created_at :: datetime
  save_updated_at :: datetime

record Snapshot =
  final_room :: string
  snapshot_inventory :: "string list"
  snapshot_encountered_villain :: bool
  snapshot_optimal_moves :: "int option"

record GameResult =
  user_email :: string
  result_level_id :: string
  result_status :: GameStatus
  score :: int
  moves :: int
  items_collected :: int
  finished_at :: datetime
  snapshot :: "Snapshot option"

text \<open>
  The two stores the controller writes: the active-session store, keyed by user
  (\<^verbatim>\<open>upsert_active\<close>, \<^verbatim>\<open>delete_active\<close>), and the append-only history
  (\<^verbatim>\<open>add\<close>).
\<close>

record Repos =
  saves :: "string \<rightharpoonup> GameSave"
  history :: "GameResult list"

text \<open>
  An action returns the exception raised, if any, the state object as the action left it
  (the controller mutates it in place), and the stores. A stored session record holds the
  state as it was when it was stored. \<open>now\<close> is the clock reading of the action.
\<close>

type_synonym outcome = "error option \<times> GameState \<times> Repos"

definition visit :: "GameState \<Rightarrow> string \<Rightarrow> datetime \<Rightarrow> GameState" where
  "visit state rn now =
     state\<lparr>visited_rooms := finsert rn (visited_rooms state), updated_at := now\<rparr>"

text \<open>
  The level source is a read-only lookup \<open>levels\<close>, the \<^verbatim>\<open>get\<close> of the level
  repository. \<^verbatim>\<open>LevelRepository.get\<close> is declared to return the raw definition
  dictionary, and both repositories of the code base return it; the controller uses what
  it gets as a \<^verbatim>\<open>Level\<close>. So the value handed out is a Python object of one of two
  kinds: a raw definition, or a \<^verbatim>\<open>Level\<close> object as a source written for the
  controller would return it. The record of a raw definition holds the seven keys the
  factory reads; a dictionary with none of them stands for the empty dictionary, the only
  falsy value of the two kinds.
\<close>

datatype level_source_value = RawDefinition LevelDef | LevelObject Level

type_synonym level_source = "string \<Rightarrow> level_source_value option"

definition InMemoryLevelRepository_get :: "LevelDef list \<Rightarrow> level_source" where
  "InMemoryLevelRepository_get lvls lid =
     map_option RawDefinition (List.find (\<lambda>lvl. def_id lvl = Some lid) (rev lvls))"

definition truthy :: "level_source_value \<Rightarrow> bool" where
  "truthy v =
     (case v of
        RawDefinition d \<Rightarrow> length (missing_keys d) < 7
      | LevelObject level \<Rightarrow> True)"

text \<open>\<^verbatim>\<open>_require_level\<close>: \<^verbatim>\<open>if not level: raise ValueError\<close>.\<close>

definition require_level :: "level_source \<Rightarrow> string \<Rightarrow> error + level_source_value" where
  "require_level levels lid =
     (case levels lid of
        None \<Rightarrow> Inl (ValueError lid)
      | Some v \<Rightarrow> if truthy v then Inr v else Inl (ValueError lid))"

text \<open>
  Reading an attribute of a \<^verbatim>\<open>Level\<close> (\<^verbatim>\<open>level.map\<close>, \<^verbatim>\<open>level.scoring\<close>) from
  the value the source handed out: a \<^verbatim>\<open>dict\<close> has no such attribute.
\<close>

definition as_level :: "string \<Rightarrow> level_source_value \<Rightarrow> error + Level" where
  "as_level attribute v =
     (case v of
        RawDefinition d \<Rightarrow> Inl (AttributeError attribute)
      | LevelObject level \<Rightarrow> Inr level)"

definition autosave :: "datetime \<Rightarrow> string \<Rightarrow> string \<Rightarrow> GameState \<Rightarrow> Repos \<Rightarrow> Repos" where
  "autosave now user lid state repos =
     repos\<lparr>saves := (saves repos)(user \<mapsto>
       \<lparr>save_user_email = user, save_level_id = lid, save_state = state,
        save_created_at = now, save_updated_at = now\<rparr>)\<rparr>"

definition then_level ::
  "error + level_source_value \<Rightarrow> (level_source_value \<Rightarrow> error + Level) \<Rightarrow> error + Level" where
  "then_level r f = (case r of Inl e \<Rightarrow> Inl e | Inr v \<Rightarrow> f v)"

definition attr_calculate :: "scoring_attr \<Rightarrow> GameState \<Rightarrow> Level \<Rightarrow> error + int" where
  "attr_calculate s state level =
     (case s of
        BoundScoringPolicy d \<Rightarrow> Inl (AttributeError ''calculate'')
      | ScoreStrategyObject strategy \<Rightarrow> calculate strategy state level)"

definition persist_or_finalize ::
  "level_source \<Rightarrow> datetime \<Rightarrow> string \<Rightarrow> string \<Rightarrow> GameState \<Rightarrow> Repos \<Rightarrow> outcome" where
  "persist_or_finalize levels now user lid state repos =
     (if \<not> is_terminal (status state) then (None, state, autosave now user lid state repos)
      else
        (case then_level (require_level levels lid) (as_level ''scoring'') of
           Inl e \<Rightarrow> (Some e, state, repos)
         | Inr level \<Rightarrow>
             (case attr_calculate (scoring level) state level of
                Inl e \<Rightarrow> (Some e, state, repos)
              | Inr sc \<Rightarrow>
                  let result =
                    \<lparr>user_email = user, result_level_id = lid, result_status = status state,
                     score = sc, moves = move_count state,
                     items_collected = int (fcard (collected_items state)),
                     finished_at = now,
                     snapshot = Some
                       \<lparr>final_room = location (player state),
                        snapshot_inventory = sorted_list_of_fset (collected_items state),
                        snapshot_encountered_villain = encountered_villain state,
                        snapshot_optimal_moves = optimal_moves level\<rparr>\<rparr>
                  in (None, state,
                      repos\<lparr>history := history repos @ [result],
                            saves := (saves repos)(user := None)\<rparr>))))"

text \<open>
  \<^verbatim>\<open>GameController.move\<close>. The test \<^verbatim>\<open>direction not in room.exits\<close> and the lookup
  \<^verbatim>\<open>room.exits[direction]\<close> are the two branches of one \<open>dict_get\<close>.
\<close>

definition move ::
  "level_source \<Rightarrow> datetime \<Rightarrow> string \<Rightarrow> string \<Rightarrow> GameState \<Rightarrow> string \<Rightarrow> Repos \<Rightarrow> outcome" where
  "move levels now user lid state direction repos =
     (if is_terminal (status state)
      then (None, state\<lparr>message := Some ''Game already ended.''\<rparr>, repos)
      else
        (case then_level (require_level levels lid) (as_level ''map'') of
           Inl e \<Rightarrow> (Some e, state, repos)
         | Inr level \<Rightarrow>
             (case dict_get (rooms (level_map level)) (location (player state)) of
                None \<Rightarrow> (Some (KeyError (location (player state))), state, repos)
              | Some room \<Rightarrow>
                  (case dict_get (exits room) direction of
                     None \<Rightarrow>
                       let state1 = state\<lparr>message := Some ''You bumped into a wall.'',
                                          event_log := event_log state @ [''Bumped into a wall'']\<rparr>
                       in (None, state1, autosave now user lid state1 repos)
                   | Some next_room \<Rightarrow>
                       let state1 = state\<lparr>player := (player state)\<lparr>location := next_room\<rparr>,
                                          move_count := move_count state + 1\<rparr>;
                           state2 = visit state1 next_room now;
                           state3 = state2\<lparr>event_log := event_log state2 @
                                               [''Moved '' @ direction @ '' to '' @ next_room],
                                            message := None\<rparr>
                       in
                         (case dict_get (rooms (level_map level)) next_room of
                            None \<Rightarrow> (Some (KeyError next_room), state3, repos)
                          | Some entered_room \<Rightarrow>
                              let state4 = (case item entered_room of
                                              None \<Rightarrow> state3
                                            | Some it \<Rightarrow> on_enter it state3);
                                  state5 = check (rules level) state4 entered_room
                              in persist_or_finalize levels now user lid state5 repos)))))"

section \<open>Serialization\<close>

text \<open>
  JSON-compatible values. \<^verbatim>\<open>gamestate_to_dict\<close> lists a set in some order; the model
  lists it in sorted order. The two \<^verbatim>\<open>datetime\<close> conversions of the standard library
  are parameters: \<open>isoformat\<close>, and \<open>fromisoformat\<close>, which is \<open>None\<close> where Python
  raises \<^verbatim>\<open>ValueError\<close>. Where a stored value has another JSON type than its field,
  the model raises \<^verbatim>\<open>TypeError\<close>.
\<close>

datatype json =
    JNone
  | JBool bool
  | JInt int
  | JStr string
  | JList "json list"
  | JDict "(string \<times> json) list"

definition json_strs :: "string list \<Rightarrow> json" where
  "json_strs xs = JList (map JStr xs)"

definition gamestate_to_dict :: "(datetime \<Rightarrow> string) \<Rightarrow> GameState \<Rightarrow> (string, json) dict" where
  "gamestate_to_dict isoformat state =
     [(''player'', JDict
         [(''location'', JStr (location (player state))),
          (''inventory'', json_strs (sorted_list_of_fset (inventory (player state))))]),
      (''visited_rooms'', json_strs (sorted_list_of_fset (visited_rooms state))),
      (''collected_items'', json_strs (sorted_list_of_fset (collected_items state))),
      (''move_count'', JInt (move_count state)),
      (''status'', JStr (status_value (status state))),
      (''message'', (case message state of None \<Rightarrow> JNone | Some m \<Rightarrow> JStr m)),
      (''event_log'', json_strs (event_log state)),
      (''encountered_villain'', JBool (encountered_villain state)),
      (''started_at'', JStr (isoformat (started_at state))),
      (''updated_at'', JStr (isoformat (updated_at state)))]"

definition then_do :: "error + 'a \<Rightarrow> ('a \<Rightarrow> error + 'b) \<Rightarrow> error + 'b" where
  "then_do r f = (case r of Inl e \<Rightarrow> Inl e | Inr x \<Rightarrow> f x)"

definition index :: "(string, json) dict \<Rightarrow> string \<Rightarrow> error + json" where
  "index d k = (case dict_get d k of None \<Rightarrow> Inl (KeyError k) | Some v \<Rightarrow> Inr v)"

definition get_or :: "(string, json) dict \<Rightarrow> string \<Rightarrow> json \<Rightarrow> json" where
  "get_or d k dflt = (case dict_get d k of None \<Rightarrow> dflt | Some v \<Rightarrow> v)"

fun as_dict :: "json \<Rightarrow> error + (string, json) dict" where
  "as_dict (JDict d) = Inr d"
| "as_dict v = Inl (TypeError ''dict'')"

fun as_str :: "json \<Rightarrow> error + string" where
  "as_str (JStr s) = Inr s"
| "as_str v = Inl (TypeError ''str'')"

fun as_int :: "json \<Rightarrow> error + int" where
  "as_int (JInt n) = Inr n"
| "as_int v = Inl (TypeError ''int'')"

fun as_bool :: "json \<Rightarrow> error + bool" where
  "as_bool (JBool b) = Inr b"
| "as_bool v = Inl (TypeError ''bool'')"

fun as_opt_str :: "json \<Rightarrow> error + string option" where
  "as_opt_str JNone = Inr None"
| "as_opt_str (JStr s) = Inr (Some s)"
| "as_opt_str v = Inl (TypeError ''str'')"

fun strs_of :: "json list \<Rightarrow> error + string list" where
  "strs_of [] = Inr []"
| "strs_of (v # vs) =
     then_do (as_str v) (\<lambda>s. then_do (strs_of vs) (\<lambda>ss. Inr (s # ss)))"

fun as_strs :: "json \<Rightarrow> error + string list" where
  "as_strs (JList vs) = strs_of vs"
| "as_strs v = Inl (TypeError ''list'')"

definition GameStatus_of_value :: "string \<Rightarrow> error + GameStatus" where
  "GameStatus_of_value v =
     (if v = ''in_progress'' then Inr IN_PROGRESS
      else if v = ''completed'' then Inr COMPLETED
      else if v = ''game_over'' then Inr GAME_OVER
      else Inl (ValueError v))"

definition parse_datetime :: "(string \<Rightarrow> datetime option) \<Rightarrow> string \<Rightarrow> error + datetime" where
  "parse_datetime fromisoformat s =
     (case fromisoformat s of None \<Rightarrow> Inl (ValueError s) | Some t \<Rightarrow> Inr t)"

definition gamestate_from_dict ::
  "(string \<Rightarrow> datetime option) \<Rightarrow> (string, json) dict \<Rightarrow> error + GameState" where
  "gamestate_from_dict fromisoformat data =
     then_do (then_do (index data ''player'') as_dict) (\<lambda>player_data.
     then_do (then_do (index player_data ''location'') as_str) (\<lambda>loc.
     then_do (as_strs (get_or player_data ''inventory'' (JList []))) (\<lambda>inv.
     then_do (as_strs (get_or data ''visited_rooms'' (JList []))) (\<lambda>visited.
     then_do (as_strs (get_or data ''collected_items'' (JList []))) (\<lambda>collected.
     then_do (as_int (get_or data ''move_count'' (JInt 0))) (\<lambda>mc.
     then_do (then_do (as_str (get_or data ''status'' (JStr (status_value IN_PROGRESS))))
                GameStatus_of_value) (\<lambda>st.
     then_do (as_opt_str (get_or data ''message'' JNone)) (\<lambda>msg.
     then_do (as_strs (get_or data ''event_log'' (JList []))) (\<lambda>log.
     then_do (as_bool (get_or data ''encountered_villain'' (JBool False))) (\<lambda>ev.
     then_do (then_do (then_do (index data ''started_at'') as_str)
                (parse_datetime fromisoformat)) (\<lambda>started.
     then_do (then_do (then_do (index data ''updated_at'') as_str)
                (parse_datetime fromisoformat)) (\<lambda>updated.
       Inr \<lparr>player = \<lparr>location = loc, inventory = fset_of_list inv\<rparr>,
            visited_rooms = fset_of_list visited,
            collected_items = fset_of_list collected,
            move_count = mc, status = st, message = msg, event_log = log,
            started_at = started, updated_at = updated,
            encountered_villain = ev\<rparr>))))))))))))"

section \<open>The checks of structural validation, as the specification words them\<close>

definition required_fields_present :: "LevelDef \<Rightarrow> bool" where
  "required_fields_present defn =
     (def_id defn \<noteq> None \<and> def_name defn \<noteq> None \<and> def_difficulty defn \<noteq> None \<and>
      def_start_room defn \<noteq> None \<and> def_rooms defn \<noteq> None \<and> def_coords defn \<noteq> None \<and>
      def_rules defn \<noteq> None)"

definition start_room_declared :: "(string, RoomDef) dict \<Rightarrow> string \<Rightarrow> bool" where
  "start_room_declared rms start = (start \<in> set (dict_keys rms))"

definition exit_pairs :: "(string, RoomDef) dict \<Rightarrow> (string \<times> string) list" where
  "exit_pairs rms =
     concat (map (\<lambda>(room, data). map (Pair room) (dict_values (exits_or_empty data)))
                 (dict_items rms))"

definition exits_declared :: "(string, RoomDef) dict \<Rightarrow> bool" where
  "exits_declared rms =
     (\<forall>(room, target) \<in> set (exit_pairs rms). target \<in> set (dict_keys rms))"

definition rooms_have_coords :: "(string, RoomDef) dict \<Rightarrow> (string, int list) dict \<Rightarrow> bool" where
  "rooms_have_coords rms cs = (\<forall>room \<in> set (dict_keys rms). room \<in> set (dict_keys cs))"

definition exactly_one_villain :: "(string, RoomDef) dict \<Rightarrow> bool" where
  "exactly_one_villain rms = (length (villains rms) = 1)"

definition first_invalid_exit :: "(string, RoomDef) dict \<Rightarrow> (string \<times> string) option" where
  "first_invalid_exit rms =
     List.find (\<lambda>(room, target). target \<notin> set (dict_keys rms)) (exit_pairs rms)"

definition first_room_without_coords ::
  "(string, RoomDef) dict \<Rightarrow> (string, int list) dict \<Rightarrow> string option" where
  "first_room_without_coords rms cs =
     List.find (\<lambda>room. room \<notin> set (dict_keys cs)) (dict_keys rms)"

section \<open>Sequences of moves\<close>

text \<open>
  Following a list of directions from a room, each through \<^verbatim>\<open>MapGraph.move\<close> as the
  controller does: \<open>None\<close> as soon as a direction is not a declared exit of the room
  reached so far.
\<close>

fun run_moves :: "MapGraph \<Rightarrow> string \<Rightarrow> string list \<Rightarrow> string option" where
  "run_moves m r [] = Some r"
| "run_moves m r (d # ds) =
     (case move_graph m r d of
        Inr (Some nxt) \<Rightarrow> run_moves m nxt ds
      | _ \<Rightarrow> None)"

text \<open>The room holds an item of the \<^verbatim>\<open>Villain\<close> class, as \<^verbatim>\<open>StandardRules.check\<close> tests it.\<close>

definition holds_villain_item :: "MapGraph \<Rightarrow> string \<Rightarrow> bool" where
  "holds_villain_item m r =
     (case dict_get (rooms m) r of None \<Rightarrow> False | Some room \<Rightarrow> is_Villain (item room))"

section \<open>Example levels and states\<close>

definition lair :: Room where
  "lair = \<lparr>room_name = ''End'', exits = [], item = Some (Villain ''Villain'')\<rparr>"

definition hall :: Room where
  "hall = \<lparr>room_name = ''Start'', exits = [(''East'', ''End'')], item = Some (Relic ''X'')\<rparr>"

definition rules_X :: StandardRules where
  "rules_X = \<lparr>required_items = {|''X''|}\<rparr>"

definition fresh_state :: "string \<Rightarrow> GameState" where
  "fresh_state r =
     \<lparr>player = \<lparr>location = r, inventory = {||}\<rparr>, visited_rooms = {|r|},
      collected_items = {||}, move_count = 0, status = IN_PROGRESS, message = None,
      event_log = [], started_at = 0, updated_at = 0, encountered_villain = False\<rparr>"


text \<open>
  A level whose villain is called Boss and whose only relic is called Villain; the relic
  lies between the start room and the villain.
\<close>

definition decoy_rooms :: "(string, RoomDef) dict" where
  "decoy_rooms =
     [(''Start'', \<lparr>def_exits = Some [(''East'', ''Decoy'')], def_item = None\<rparr>),
      (''Decoy'', \<lparr>def_exits = Some [(''East'', ''Lair'')],
                   def_item = Some \<lparr>item_type = ''relic'', item_def_name = ''Villain''\<rparr>\<rparr>),
      (''Lair'', \<lparr>def_exits = Some [],
                  def_item = Some \<lparr>item_type = ''villain'', item_def_name = ''Boss''\<rparr>\<rparr>)]"

definition line_coords :: "(string, int list) dict" where
  "line_coords = [(''Start'', [0, 0]), (''Decoy'', [1, 0]), (''Lair'', [2, 0])]"

definition decoy_level :: LevelDef where
  "decoy_level =
     \<lparr>def_id = Some ''decoy'', def_name = Some ''Decoy'', def_difficulty = Some ''medium'',
      def_start_room = Some ''Start'', def_rooms = Some decoy_rooms,
      def_coords = Some line_coords,
      def_rules = Some \<lparr>def_required_items = []\<rparr>\<rparr>"

definition decoy_built :: Level where
  "decoy_built =
     \<lparr>level_id = ''decoy'', level_name = ''Decoy'', difficulty = PyDifficulty MEDIUM,
      start_room = ''Start'',
      level_map =
        \<lparr>rooms =
           [(''Start'', \<lparr>room_name = ''Start'', exits = [(''East'', ''Decoy'')], item = None\<rparr>),
            (''Decoy'', \<lparr>room_name = ''Decoy'', exits = [(''East'', ''Lair'')],
                         item = Some (Relic ''Villain'')\<rparr>),
            (''Lair'', \<lparr>room_name = ''Lair'', exits = [], item = Some (Villain ''Boss'')\<rparr>)],
         coords = line_coords\<rparr>,
      rules = \<lparr>required_items = {||}\<rparr>,
      visibility = BoundVisibilityPolicy MEDIUM,
      scoring = BoundScoringPolicy MEDIUM,
      optimal_moves = Some 1\<rparr>"

text \<open>The same items, with no exit leading to the villain's room.\<close>

definition stranded_level :: LevelDef where
  "stranded_level =
     \<lparr>def_id = Some ''stranded'', def_name = Some ''Stranded'', def_difficulty = Some ''easy'',
      def_start_room = Some ''Start'',
      def_rooms = Some
        [(''Start'', \<lparr>def_exits = Some [(''East'', ''Decoy'')], def_item = None\<rparr>),
         (''Decoy'', \<lparr>def_exits = Some [(''West'', ''Start'')],
                      def_item = Some \<lparr>item_type = ''relic'', item_def_name = ''Villain''\<rparr>\<rparr>),
         (''Lair'', \<lparr>def_exits = Some [(''West'', ''Decoy'')],
                     def_item = Some \<lparr>item_type = ''villain'', item_def_name = ''Boss''\<rparr>\<rparr>)],
      def_coords = Some line_coords,
      def_rules = Some \<lparr>def_required_items = []\<rparr>\<rparr>"

definition stranded_built :: Level where
  "stranded_built =
     \<lparr>level_id = ''stranded'', level_name = ''Stranded'', difficulty = PyDifficulty EASY,
      start_room = ''Start'',
      level_map =
        \<lparr>rooms =
           [(''Start'', \<lparr>room_name = ''Start'', exits = [(''East'', ''Decoy'')], item = None\<rparr>),
            (''Decoy'', \<lparr>room_name = ''Decoy'', exits = [(''West'', ''Start'')],
                         item = Some (Relic ''Villain'')\<rparr>),
            (''Lair'', \<lparr>room_name = ''Lair'', exits = [(''West'', ''Decoy'')],
                        item = Some (Villain ''Boss'')\<rparr>)],
         coords = line_coords\<rparr>,
      rules = \<lparr>required_items = {||}\<rparr>,
      visibility = BoundVisibilityPolicy EASY,
      scoring = BoundScoringPolicy EASY,
      optimal_moves = Some 1\<rparr>"

text \<open>Start, then a vault holding the required relic X, then the villain.\<close>

definition vault_level :: "string \<Rightarrow> LevelDef" where
  "vault_level dv =
     \<lparr>def_id = Some ''vault'', def_name = Some ''Vault'', def_difficulty = Some dv,
      def_start_room = Some ''Start'',
      def_rooms = Some
        [(''Start'', \<lparr>def_exits = Some [(''East'', ''Vault'')], def_item = None\<rparr>),
         (''Vault'', \<lparr>def_exits = Some [(''East'', ''End''), (''West'', ''Start'')],
                      def_item = Some \<lparr>item_type = ''relic'', item_def_name = ''X''\<rparr>\<rparr>),
         (''End'', \<lparr>def_exits = Some [],
                    def_item = Some \<lparr>item_type = ''villain'', item_def_name = ''Villain''\<rparr>\<rparr>)],
      def_coords = Some [(''Start'', [0, 0]), (''Vault'', [1, 0]), (''End'', [2, 0])],
      def_rules = Some \<lparr>def_required_items = [''X'']\<rparr>\<rparr>"

definition vault_map :: MapGraph where
  "vault_map =
     \<lparr>rooms =
        [(''Start'', \<lparr>room_name = ''Start'', exits = [(''East'', ''Vault'')], item = None\<rparr>),
         (''Vault'', \<lparr>room_name = ''Vault'', exits = [(''East'', ''End''), (''West'', ''Start'')],
                      item = Some (Relic ''X'')\<rparr>),
         (''End'', \<lparr>room_name = ''End'', exits = [], item = Some (Villain ''Villain'')\<rparr>)],
      coords = [(''Start'', [0, 0]), (''Vault'', [1, 0]), (''End'', [2, 0])]\<rparr>"

definition vault_built :: "Difficulty \<Rightarrow> Level" where
  "vault_built dif =
     \<lparr>level_id = ''vault'', level_name = ''Vault'', difficulty = PyDifficulty dif,
      start_room = ''Start'', level_map = vault_map,
      rules = \<lparr>required_items = {|''X''|}\<rparr>,
      visibility = BoundVisibilityPolicy dif,
      scoring = BoundScoringPolicy dif,
      optimal_moves = Some 2\<rparr>"

text \<open>A level source that hands out the built level, and the in-memory level repository of
  the code base holding the definition.\<close>

definition vault_repo :: "Difficulty \<Rightarrow> level_source" where
  "vault_repo dif lid = (if lid = ''vault'' then Some (LevelObject (vault_built dif)) else None)"

definition vault_source :: level_source where
  "vault_source = InMemoryLevelRepository_get [vault_level ''medium'']"

definition in_vault :: GameState where
  "in_vault =
     \<lparr>player = \<lparr>location = ''Vault'', inventory = {||}\<rparr>,
      visited_rooms = {|''Start'', ''Vault''|}, collected_items = {|''X''|}, move_count = 1,
      status = IN_PROGRESS, message = None,
      event_log = [''Moved East to Vault'', ''Collected X''],
      started_at = 0, updated_at = 1, encountered_villain = False\<rparr>"

definition won :: "int \<Rightarrow> GameState" where
  "won n =
     \<lparr>player = \<lparr>location = ''End'', inventory = {||}\<rparr>,
      visited_rooms = {|''Start'', ''Vault'', ''End''|}, collected_items = {|''X''|},
      move_count = n, status = COMPLETED, message = Some ''You defeated the villain!'',
      event_log = [''Moved East to Vault'', ''Collected X'', ''Moved East to End'',
                   ''Encountered the villain''],
      started_at = 0, updated_at = 2, encountered_villain = True\<rparr>"

definition no_repos :: Repos where
  "no_repos = \<lparr>saves = Map.empty, history = []\<rparr>"

definition saved_in_vault :: Repos where
  "saved_in_vault =
     \<lparr>saves = [''ann'' \<mapsto> \<lparr>save_user_email = ''ann'', save_level_id = ''vault'',
                              save_state = in_vault, save_created_at = 1, save_updated_at = 1\<rparr>],
      history = []\<rparr>"

text \<open>A clock with two readings and their ISO-8601 renderings.\<close>

definition clock_iso :: "datetime \<Rightarrow> string" where
  "clock_iso t = (if t = 0 then ''1970-01-01T00:00:00+00:00'' else ''1970-01-01T00:00:01+00:00'')"

definition clock_parse :: "string \<Rightarrow> datetime option" where
  "clock_parse s =
     (if s = ''1970-01-01T00:00:00+00:00'' then Some 0
      else if s = ''1970-01-01T00:00:01+00:00'' then Some 1
      else None)"

section \<open>Rule evaluation\<close>

lemma check_villain_win:
  "is_Villain (item room) \<Longrightarrow> required_items self |\<subseteq>| collected_items state \<Longrightarrow>
   check self state room =
     state\<lparr>status := COMPLETED, message := Some ''You defeated the villain!''\<rparr>"
  by (simp add: check_def)

lemma check_villain_loss:
  "is_Villain (item room) \<Longrightarrow> \<not> required_items self |\<subseteq>| collected_items state \<Longrightarrow>
   check self state room =
     state\<lparr>status := GAME_OVER, message := Some ''You found the villain too soon.''\<rparr>"
  by (simp add: check_def)

lemma check_frame:
  "check self state room = state\<lparr>status := status (check self state room),
                                  message := message (check self state room)\<rparr>"
  by (simp add: check_def)

text \<open>
  C4. \<^verbatim>\<open>StandardRules.check(state, entered_room)\<close>: in a room holding the villain the
  status becomes COMPLETED with the win message when the collected items include every
  required item, and GAME_OVER with the loss message otherwise; in any other room the
  state is returned as it was; only \<open>status\<close> and \<open>message\<close> are ever written; and a
  second call right after the first changes nothing, in particular neither status nor
  message.
\<close>

theorem check_spec:
  "(is_Villain (item room) \<and> required_items self |\<subseteq>| collected_items state \<longrightarrow>
      status (check self state room) = COMPLETED \<and>
      message (check self state room) = Some ''You defeated the villain!'') \<and>
   (is_Villain (item room) \<and> \<not> required_items self |\<subseteq>| collected_items state \<longrightarrow>
      status (check self state room) = GAME_OVER \<and>
      message (check self state room) = Some ''You found the villain too soon.'') \<and>
   (\<not> is_Villain (item room) \<longrightarrow> check self state room = state) \<and>
   check self state room = state\<lparr>status := status (check self state room),
                                  message := message (check self state room)\<rparr> \<and>
   check self (check self state room) room = check self state room"
  by (simp add: check_def)

theorem check_spec_witness:
  "(is_Villain (item lair) \<and>
      required_items rules_X |\<subseteq>| collected_items ((fresh_state ''End'')\<lparr>collected_items := {|''X''|}\<rparr>) \<and>
      status (check rules_X ((fresh_state ''End'')\<lparr>collected_items := {|''X''|}\<rparr>) lair) = COMPLETED) \<and>
   (is_Villain (item lair) \<and>
      \<not> required_items rules_X |\<subseteq>| collected_items (fresh_state ''End'') \<and>
      status (check rules_X (fresh_state ''End'') lair) = GAME_OVER \<and>
      check rules_X (check rules_X (fresh_state ''End'') lair) lair =
        check rules_X (fresh_state ''End'') lair) \<and>
   (\<not> is_Villain (item hall) \<and>
      check rules_X (fresh_state ''Start'') hall = fresh_state ''Start'')"
  using check_spec [of lair rules_X "(fresh_state ''End'')\<lparr>collected_items := {|''X''|}\<rparr>"]
        check_spec [of lair rules_X "fresh_state ''End''"]
        check_spec [of hall rules_X "fresh_state ''Start''"]
  by (simp add: lair_def hall_def rules_X_def fresh_state_def)

section \<open>Structural validation\<close>

lemma dict_contains_keys: "dict_contains k d \<longleftrightarrow> k \<in> set (dict_keys d)"
  by (simp add: dict_contains_def dict_get_def dict_keys_def dict_items_def
      dom_clearjunk map_of_eq_None_iff)

lemma validate_targets_find:
  "validate_targets rms room ts =
     (case List.find (\<lambda>t. \<not> dict_contains t rms) ts of
        None \<Rightarrow> Inr ()
      | Some t \<Rightarrow> Inl (LevelValidationError (InvalidExit room t)))"
  by (induction ts) auto

lemma find_map_Pair:
  "List.find (\<lambda>(r, t). P t) (map (Pair room) ts) = map_option (Pair room) (List.find P ts)"
  by (induction ts) auto

lemma find_append:
  "List.find P (xs @ ys) = (case List.find P xs of None \<Rightarrow> List.find P ys | Some x \<Rightarrow> Some x)"
  by (induction xs) auto

lemma validate_exits_find:
  "validate_exits rms ps =
     (case List.find (\<lambda>(room, t). \<not> dict_contains t rms)
             (concat (map (\<lambda>(room, data). map (Pair room) (dict_values (exits_or_empty data))) ps)) of
        None \<Rightarrow> Inr ()
      | Some (room, t) \<Rightarrow> Inl (LevelValidationError (InvalidExit room t)))"
proof (induction ps)
  case Nil
  show ?case by simp
next
  case (Cons p ps)
  obtain room data where p: "p = (room, data)" by (cases p)
  show ?case
    using Cons
    by (simp add: p validate_targets_find find_append find_map_Pair split: option.splits)
qed

lemma validate_coords_find:
  "validate_coords cs rs =
     (case List.find (\<lambda>r. \<not> dict_contains r cs) rs of
        None \<Rightarrow> Inr ()
      | Some r \<Rightarrow> Inl (LevelValidationError (MissingCoordinates r)))"
  by (induction rs) auto

lemma first_invalid_exit_None: "first_invalid_exit rms = None \<longleftrightarrow> exits_declared rms"
  by (auto simp: first_invalid_exit_def exits_declared_def find_None_iff)

lemma first_room_without_coords_None:
  "first_room_without_coords rms cs = None \<longleftrightarrow> rooms_have_coords rms cs"
  by (auto simp: first_room_without_coords_def rooms_have_coords_def find_None_iff)

lemma missing_keys_Nil: "missing_keys defn = [] \<longleftrightarrow> required_fields_present defn"
  by (auto simp: missing_keys_def absent_def required_fields_present_def split: option.splits)

lemma validate_present:
  assumes "def_rooms defn = Some rms" "def_start_room defn = Some start" "def_coords defn = Some cs"
    and "required_fields_present defn"
  shows "validate_level_definition defn =
     (if \<not> start_room_declared rms start then Inl (LevelValidationError StartRoomDoesNotExist)
      else case first_invalid_exit rms of
        Some (room, target) \<Rightarrow> Inl (LevelValidationError (InvalidExit room target))
      | None \<Rightarrow>
         (case first_room_without_coords rms cs of
            Some room \<Rightarrow> Inl (LevelValidationError (MissingCoordinates room))
          | None \<Rightarrow>
              if \<not> exactly_one_villain rms then Inl (LevelValidationError NotExactlyOneVillain)
              else Inr ()))"
  using assms
  by (simp add: validate_level_definition_def validate_exits_find validate_coords_find
      first_invalid_exit_def first_room_without_coords_def exit_pairs_def dict_contains_keys
      start_room_declared_def exactly_one_villain_def missing_keys_Nil
      split: option.splits prod.splits)

lemma validate_absent:
  "\<not> required_fields_present defn \<Longrightarrow>
   validate_level_definition defn =
     Inl (LevelValidationError (MissingRequiredKeys (missing_keys defn)))"
  by (simp add: validate_level_definition_def missing_keys_Nil)

text \<open>
  C7. \<^verbatim>\<open>validate_level_definition\<close> raises a validation error at the first violation,
  checking in this order: the required top-level fields are present; the start room is a
  declared room; every exit target is a declared room (the first offending exit in
  iteration order is reported); every room has coordinates (the first room without them
  is reported); exactly one room holds an item of type villain. It returns normally if and
  only if all five checks pass.
\<close>

theorem validate_level_definition_order:
  "(\<not> required_fields_present defn \<longrightarrow>
      validate_level_definition defn =
        Inl (LevelValidationError (MissingRequiredKeys (missing_keys defn)))) \<and>
   (required_fields_present defn \<and> def_rooms defn = Some rms \<and>
    def_start_room defn = Some start \<and> def_coords defn = Some cs \<longrightarrow>
      validate_level_definition defn =
        (if \<not> start_room_declared rms start
         then Inl (LevelValidationError StartRoomDoesNotExist)
         else case first_invalid_exit rms of
           Some (room, target) \<Rightarrow> Inl (LevelValidationError (InvalidExit room target))
         | None \<Rightarrow>
            (case first_room_without_coords rms cs of
               Some room \<Rightarrow> Inl (LevelValidationError (MissingCoordinates room))
             | None \<Rightarrow>
                 if \<not> exactly_one_villain rms
                 then Inl (LevelValidationError NotExactlyOneVillain)
                 else Inr ())) \<and>
      (validate_level_definition defn = Inr () \<longleftrightarrow>
         start_room_declared rms start \<and> exits_declared rms \<and>
         rooms_have_coords rms cs \<and> exactly_one_villain rms)) \<and>
   (validate_level_definition defn = Inr () \<longrightarrow> required_fields_present defn)"
proof (intro conjI impI)
  assume "\<not> required_fields_present defn"
  then show "validate_level_definition defn =
        Inl (LevelValidationError (MissingRequiredKeys (missing_keys defn)))"
    by (rule validate_absent)
next
  assume a: "required_fields_present defn \<and> def_rooms defn = Some rms \<and>
    def_start_room defn = Some start \<and> def_coords defn = Some cs"
  then show eq: "validate_level_definition defn =
        (if \<not> start_room_declared rms start
         then Inl (LevelValidationError StartRoomDoesNotExist)
         else case first_invalid_exit rms of
           Some (room, target) \<Rightarrow> Inl (LevelValidationError (InvalidExit room target))
         | None \<Rightarrow>
            (case first_room_without_coords rms cs of
               Some room \<Rightarrow> Inl (LevelValidationError (MissingCoordinates room))
             | None \<Rightarrow>
                 if \<not> exactly_one_villain rms
                 then Inl (LevelValidationError NotExactlyOneVillain)
                 else Inr ()))"
    by (simp add: validate_present)
  show "validate_level_definition defn = Inr () \<longleftrightarrow>
         start_room_declared rms start \<and> exits_declared rms \<and>
         rooms_have_coords rms cs \<and> exactly_one_villain rms"
    unfolding eq
    by (auto simp: first_invalid_exit_None[symmetric] first_room_without_coords_None[symmetric]
        split: option.splits)
next
  assume "validate_level_definition defn = Inr ()"
  then show "required_fields_present defn"
    using validate_absent[of defn] by auto
qed

lemmas validation_eval =
  required_fields_present_def start_room_declared_def exits_declared_def exit_pairs_def
  rooms_have_coords_def exactly_one_villain_def first_invalid_exit_def
  first_room_without_coords_def villains_def holds_villain_def exits_or_empty_def
  dict_keys_def dict_values_def dict_items_def missing_keys_def absent_def
  decoy_level_def decoy_rooms_def line_coords_def

theorem validate_level_definition_order_witness:
  "\<not> required_fields_present (decoy_level\<lparr>def_rules := None\<rparr>) \<and>
   validate_level_definition (decoy_level\<lparr>def_rules := None\<rparr>) =
     Inl (LevelValidationError (MissingRequiredKeys [''rules''])) \<and>
   required_fields_present (decoy_level\<lparr>def_start_room := Some ''Nowhere''\<rparr>) \<and>
   validate_level_definition (decoy_level\<lparr>def_start_room := Some ''Nowhere''\<rparr>) =
     Inl (LevelValidationError StartRoomDoesNotExist) \<and>
   required_fields_present (decoy_level\<lparr>def_coords := Some [(''Start'', [0, 0])]\<rparr>) \<and>
   validate_level_definition (decoy_level\<lparr>def_coords := Some [(''Start'', [0, 0])]\<rparr>) =
     Inl (LevelValidationError (MissingCoordinates ''Decoy'')) \<and>
   required_fields_present decoy_level \<and>
   start_room_declared decoy_rooms ''Start'' \<and> exits_declared decoy_rooms \<and>
   rooms_have_coords decoy_rooms line_coords \<and> exactly_one_villain decoy_rooms \<and>
   validate_level_definition decoy_level = Inr ()"
  using validate_level_definition_order
          [of "decoy_level\<lparr>def_rules := None\<rparr>" decoy_rooms "''Start''" line_coords]
        validate_level_definition_order
          [of "decoy_level\<lparr>def_start_room := Some ''Nowhere''\<rparr>" decoy_rooms "''Nowhere''"
              line_coords]
        validate_level_definition_order
          [of "decoy_level\<lparr>def_coords := Some [(''Start'', [0, 0])]\<rparr>" decoy_rooms "''Start''"
              "[(''Start'', [0, 0])]"]
        validate_level_definition_order [of decoy_level decoy_rooms "''Start''" line_coords]
  by (simp add: validation_eval)

section \<open>Serialization round trip\<close>

lemma then_do_Inr [simp]: "then_do (Inr x) f = f x"
  by (simp add: then_do_def)

lemma strs_of_map_JStr [simp]: "strs_of (map JStr xs) = Inr xs"
  by (induction xs) simp_all

lemma as_strs_json_strs [simp]: "as_strs (json_strs xs) = Inr xs"
  by (simp add: json_strs_def)

lemma GameStatus_roundtrip [simp]: "GameStatus_of_value (status_value s) = Inr s"
  by (cases s) (simp_all add: GameStatus_of_value_def)

lemma as_opt_str_message [simp]:
  "as_opt_str (case m of None \<Rightarrow> JNone | Some x \<Rightarrow> JStr x) = Inr m"
  by (cases m) simp_all

text \<open>
  C9. For every \<^verbatim>\<open>GameState\<close> whose two timestamps survive \<^verbatim>\<open>isoformat\<close> followed by
  \<^verbatim>\<open>fromisoformat\<close>, \<^verbatim>\<open>gamestate_from_dict(gamestate_to_dict(state))\<close> returns a state
  equal to the original in every field: in particular the player's location and
  inventory, the move count, the status and the event log, in its order.
\<close>

theorem gamestate_roundtrip:
  assumes "fromisoformat (isoformat (started_at state)) = Some (started_at state)"
    and "fromisoformat (isoformat (updated_at state)) = Some (updated_at state)"
  shows "gamestate_from_dict fromisoformat (gamestate_to_dict isoformat state) = Inr state"
  using assms
  by (simp add: gamestate_from_dict_def gamestate_to_dict_def index_def get_or_def dict_get_def
      parse_datetime_def)

theorem gamestate_roundtrip_witness:
  "clock_parse (clock_iso (started_at in_vault)) = Some (started_at in_vault) \<and>
   clock_parse (clock_iso (updated_at in_vault)) = Some (updated_at in_vault) \<and>
   gamestate_from_dict clock_parse (gamestate_to_dict clock_iso in_vault) = Inr in_vault \<and>
   event_log in_vault = [''Moved East to Vault'', ''Collected X'']"
  using gamestate_roundtrip [of clock_parse clock_iso in_vault]
  by (simp add: clock_parse_def clock_iso_def in_vault_def)

section \<open>Outcomes of the solvability search\<close>

text \<open>
  \<open>bfs\<close> is a total function: the search ends on every map, start room and set of
  required items. It ends with a move count, with the validation error for an unsolvable
  level, or with \<^verbatim>\<open>KeyError\<close> for a room name that is not a room of the map; the last
  cannot happen on a closed map with a declared start room.
\<close>

lemma bfs_outcomes:
  "(\<exists>n. bfs m req visited queue = Inr n) \<or>
   bfs m req visited queue = Inl (LevelValidationError LevelNotSolvable) \<or>
   (\<exists>r. bfs m req visited queue = Inl (KeyError r))"
proof (induction m req visited queue rule: bfs.induct)
  case (1 m req visited)
  show ?case by simp
next
  case (2 m req visited room items dst queue)
  show ?case
  proof (cases "(room, items) \<in> visited")
    case True
    with 2(1) show ?thesis by simp
  next
    case False
    show ?thesis
    proof (cases "dict_get (rooms m) room")
      case None
      with False show ?thesis by simp
    next
      case (Some r)
      show ?thesis
      proof (cases "goal req (item r) (collect req (item r) items)")
        case True
        with False Some show ?thesis by simp
      next
        case g: False
        have nb: "neighbors m room = Inr (exits r)" using Some by (simp add: neighbors_def)
        from 2(2)[OF False Some refl g nb] False Some g nb
        show ?thesis by simp
      qed
    qed
  qed
qed

lemma closed_map_lookup:
  "closed_map m \<Longrightarrow> dict_get (rooms m) room = Some r \<Longrightarrow> t \<in> set (dict_values (exits r)) \<Longrightarrow>
   dict_contains t (rooms m)"
  unfolding closed_map_def dict_get_def
  by (auto dest!: map_of_SomeD)

lemma bfs_closed:
  "closed_map m \<Longrightarrow> \<forall>(room, items, dst) \<in> set queue. dict_contains room (rooms m) \<Longrightarrow>
   bfs m req visited queue \<noteq> Inl (KeyError k)"
proof (induction m req visited queue rule: bfs.induct)
  case (1 m req visited)
  show ?case by simp
next
  case (2 m req visited room items dst queue)
  show ?case
  proof (cases "(room, items) \<in> visited")
    case True
    with 2(1) 2(3,4) show ?thesis by simp
  next
    case False
    from 2(4) obtain r where Some: "dict_get (rooms m) room = Some r"
      by (auto simp: dict_contains_def)
    show ?thesis
    proof (cases "goal req (item r) (collect req (item r) items)")
      case True
      with False Some show ?thesis by simp
    next
      case g: False
      have nb: "neighbors m room = Inr (exits r)" using Some by (simp add: neighbors_def)
      have q: "\<forall>(room, items, dst) \<in> set (queue @ map (\<lambda>nxt. (nxt, collect req (item r) items, dst + 1))
                 (dict_values (exits r))). dict_contains room (rooms m)"
        using 2(4) closed_map_lookup[OF 2(3) Some] by auto
      from 2(2)[OF False Some refl g nb 2(3) q] False Some g nb
      show ?thesis by simp
    qed
  qed
qed

lemma compute_optimal_moves_outcomes:
  "(\<exists>n. compute_optimal_moves m start req = Inr n) \<or>
   compute_optimal_moves m start req = Inl (LevelValidationError LevelNotSolvable) \<or>
   (\<exists>r. compute_optimal_moves m start req = Inl (KeyError r))"
  unfolding compute_optimal_moves_def by (rule bfs_outcomes)

lemma compute_optimal_moves_closed:
  assumes "closed_map m" "dict_contains start (rooms m)"
  shows "(\<exists>n. compute_optimal_moves m start req = Inr n) \<or>
         compute_optimal_moves m start req = Inl (LevelValidationError LevelNotSolvable)"
proof -
  have "compute_optimal_moves m start req \<noteq> Inl (KeyError k)" for k
    unfolding compute_optimal_moves_def using assms by (intro bfs_closed) auto
  then show ?thesis using compute_optimal_moves_outcomes[of m start req] by auto
qed

subsection \<open>The search returns the length of a shortest solving sequence\<close>

lemma dict_values_iff: "v \<in> set (dict_values d) \<longleftrightarrow> (\<exists>k. dict_get d k = Some v)"
proof -
  have "set (dict_values d) = ran (map_of d)"
    by (simp add: dict_values_def dict_items_def ran_map_of)
  then show ?thesis by (auto simp: ran_def dict_get_def)
qed

lemma trace_append:
  "trace m req s (ds @ ds') =
     (case trace m req s ds of None \<Rightarrow> None | Some t \<Rightarrow> trace m req t ds')"
  by (induction ds arbitrary: s) (auto split: option.splits)

lemma trace_single: "(\<exists>d. trace m req s [d] = Some s') \<longleftrightarrow> step m req s s'"
  by (cases s'; cases s) (auto simp: step_def dict_values_iff split: option.splits)

lemma reach_0: "reach m req start 0 s \<longleftrightarrow> s = (start, {||})"
  by (auto simp: reach_def)

lemma reach_Suc:
  "reach m req start (Suc k) s' \<longleftrightarrow> (\<exists>s. reach m req start k s \<and> step m req s s')"
proof
  assume "reach m req start (Suc k) s'"
  then obtain ds where len: "length ds = Suc k" and tr: "trace m req (start, {||}) ds = Some s'"
    by (auto simp: reach_def)
  from len obtain ds0 d where ds: "ds = ds0 @ [d]" and l0: "length ds0 = k"
    by (metis length_Suc_conv_rev)
  from tr ds obtain s where s: "trace m req (start, {||}) ds0 = Some s"
    and last: "trace m req s [d] = Some s'"
    by (auto simp: trace_append split: option.splits)
  from last have "step m req s s'" using trace_single by blast
  moreover have "reach m req start k s" unfolding reach_def using s l0 by blast
  ultimately show "\<exists>s. reach m req start k s \<and> step m req s s'" by blast
next
  assume "\<exists>s. reach m req start k s \<and> step m req s s'"
  then obtain s ds0 where l0: "length ds0 = k" and s: "trace m req (start, {||}) ds0 = Some s"
    and st: "step m req s s'"
    by (auto simp: reach_def)
  from st obtain d where "trace m req s [d] = Some s'" using trace_single by blast
  with s have "trace m req (start, {||}) (ds0 @ [d]) = Some s'"
    by (simp add: trace_append)
  moreover have "length (ds0 @ [d]) = Suc k" using l0 by simp
  ultimately show "reach m req start (Suc k) s'" unfolding reach_def by blast
qed

lemma qstates_dist:
  "s \<in> qstates Q \<Longrightarrow> \<exists>d \<in> set (qdists Q). (fst s, snd s, d) \<in> set Q"
  by (force simp: qstates_def qdists_def)

lemma level_up:
  assumes b: "base_inv m req start V Q" and l: "level_inv m req start D V Q"
    and n: "D \<notin> set (qdists Q)"
  shows "level_inv m req start (D + 1) V Q"
proof -
  have D0: "0 \<le> D" using l by (simp add: level_inv_def)
  have all: "\<forall>d \<in> set (qdists Q). d = D + 1" using l n by (auto simp: level_inv_def)
  have lt: "\<And>k s. int k < D \<Longrightarrow> reach m req start k s \<Longrightarrow> s \<in> V"
    using l unfolding level_inv_def by blast
  have eq: "\<And>s. reach m req start (nat D) s \<Longrightarrow> s \<in> V"
  proof -
    fix s assume "reach m req start (nat D) s"
    then have "s \<in> V \<or> (fst s, snd s, D) \<in> set Q" using l unfolding level_inv_def by blast
    moreover have "(fst s, snd s, D) \<notin> set Q" using n by (force simp: qdists_def)
    ultimately show "s \<in> V" by blast
  qed
  have E3: "\<forall>k s. int k < D + 1 \<longrightarrow> reach m req start k s \<longrightarrow> s \<in> V"
  proof (intro allI impI)
    fix k s assume k: "int k < D + 1" and r: "reach m req start k s"
    show "s \<in> V"
    proof (cases "int k < D")
      case True then show ?thesis using lt r by blast
    next
      case False
      with k have "k = nat D" by linarith
      then show ?thesis using eq r by blast
    qed
  qed
  have E4: "\<forall>s. reach m req start (nat (D + 1)) s \<longrightarrow> s \<in> V \<or> (fst s, snd s, D + 1) \<in> set Q"
  proof (intro allI impI)
    fix s' assume "reach m req start (nat (D + 1)) s'"
    moreover have "nat (D + 1) = Suc (nat D)" using D0 by simp
    ultimately obtain p where p: "reach m req start (nat D) p" and st: "step m req p s'"
      by (auto simp: reach_Suc)
    have "p \<in> V" using eq p by blast
    then have "s' \<in> V \<or> s' \<in> qstates Q" using b st unfolding base_inv_def by blast
    then show "s' \<in> V \<or> (fst s', snd s', D + 1) \<in> set Q"
      using qstates_dist[of s' Q] all by auto
  qed
  show ?thesis
    using D0 all l E3 E4 by (simp add: level_inv_def)
qed

lemma sorted_head_all:
  "sorted (d # ds) \<Longrightarrow> \<forall>x \<in> set (d # ds). x = D \<or> x = D + 1 \<Longrightarrow> d = D + 1 \<Longrightarrow>
   (D::int) \<notin> set (d # ds)"
  by auto

lemma normalize:
  assumes b: "base_inv m req start V ((r, i, d) # Q)"
    and l: "level_inv m req start D V ((r, i, d) # Q)"
  shows "level_inv m req start d V ((r, i, d) # Q)"
proof -
  have "d = D \<or> d = D + 1" using l by (simp add: level_inv_def qdists_def)
  then show ?thesis
  proof
    assume "d = D" then show ?thesis using l by simp
  next
    assume d: "d = D + 1"
    have "sorted (d # qdists Q)" "\<forall>x \<in> set (d # qdists Q). x = D \<or> x = D + 1"
      using l by (simp_all add: level_inv_def qdists_def)
    then have "D \<notin> set (d # qdists Q)" using d by (rule sorted_head_all)
    then have "D \<notin> set (qdists ((r, i, d) # Q))" by (simp add: qdists_def)
    from level_up[OF b l this] d show ?thesis by simp
  qed
qed

lemma pop_visited:
  assumes inv: "bfs_inv m req start V ((r, i, d) # Q)" and v: "(r, i) \<in> V"
  shows "bfs_inv m req start V Q"
proof -
  have b: "base_inv m req start V ((r, i, d) # Q)" using inv by (simp add: bfs_inv_def)
  obtain D where "level_inv m req start D V ((r, i, d) # Q)" using inv by (auto simp: bfs_inv_def)
  then have l: "level_inv m req start d V ((r, i, d) # Q)" using normalize[OF b] by blast
  have b': "base_inv m req start V Q"
    using b v unfolding base_inv_def qstates_def by auto
  have "level_inv m req start d V Q"
    using l v unfolding level_inv_def qdists_def by auto
  then show ?thesis using b' by (auto simp: bfs_inv_def)
qed

lemma expand:
  assumes inv: "bfs_inv m req start V ((r, i, d) # Q)"
    and room: "dict_get (rooms m) r = Some room"
    and ng: "\<not> goal req (item room) (collect req (item room) i)"
  shows "bfs_inv m req start (insert (r, i) V)
           (Q @ map (\<lambda>nxt. (nxt, collect req (item room) i, d + 1)) (dict_values (exits room)))"
proof -
  let ?new = "map (\<lambda>nxt. (nxt, collect req (item room) i, d + 1)) (dict_values (exits room))"
  let ?V = "insert (r, i) V"
  have b: "base_inv m req start V ((r, i, d) # Q)" using inv by (simp add: bfs_inv_def)
  obtain D where "level_inv m req start D V ((r, i, d) # Q)" using inv by (auto simp: bfs_inv_def)
  then have l: "level_inv m req start d V ((r, i, d) # Q)" using normalize[OF b] by blast
  have d0: "0 \<le> d" and rd: "reach m req start (nat d) (r, i)"
    using b by (auto simp: base_inv_def)
  have succ: "\<And>s'. step m req (r, i) s' \<longleftrightarrow> s' \<in> qstates ?new"
    using room by (auto simp: step_def qstates_def image_iff)
  have B: "\<forall>(r', i', d') \<in> set (Q @ ?new). 0 \<le> d' \<and> reach m req start (nat d') (r', i')"
  proof -
    have "reach m req start (nat (d + 1)) s'" if "s' \<in> qstates ?new" for s'
    proof -
      have "step m req (r, i) s'" using that succ by blast
      moreover have "nat (d + 1) = Suc (nat d)" using d0 by simp
      ultimately show ?thesis using rd by (auto simp: reach_Suc)
    qed
    then have "\<forall>(r', i', d') \<in> set ?new. 0 \<le> d' \<and> reach m req start (nat d') (r', i')"
      using d0 by (auto simp: qstates_def image_iff)
    moreover have "\<forall>(r', i', d') \<in> set Q. 0 \<le> d' \<and> reach m req start (nat d') (r', i')"
      using b by (auto simp: base_inv_def)
    ultimately show ?thesis by auto
  qed
  have ns: "\<not> solved m req (r, i)" using room ng by (simp add: solved_def)
  have qs: "qstates ((r, i, d) # Q) = insert (r, i) (qstates Q)"
    "qstates (Q @ ?new) = qstates Q \<union> qstates ?new"
    by (simp_all add: qstates_def image_Un)
  have C: "\<forall>s \<in> ?V. \<not> solved m req s \<and>
             (\<forall>s'. step m req s s' \<longrightarrow> s' \<in> ?V \<or> s' \<in> qstates (Q @ ?new))"
  proof
    fix s assume s: "s \<in> ?V"
    show "\<not> solved m req s \<and> (\<forall>s'. step m req s s' \<longrightarrow> s' \<in> ?V \<or> s' \<in> qstates (Q @ ?new))"
    proof (cases "s = (r, i)")
      case True
      then show ?thesis using ns succ qs by auto
    next
      case False
      with s have "s \<in> V" by simp
      then have "\<not> solved m req s"
        "\<forall>s'. step m req s s' \<longrightarrow> s' \<in> V \<or> s' \<in> qstates ((r, i, d) # Q)"
        using b unfolding base_inv_def by blast+
      then show ?thesis using qs by auto
    qed
  qed
  have qd: "qdists (Q @ ?new) = qdists Q @ replicate (length (dict_values (exits room))) (d + 1)"
    by (simp add: qdists_def map_replicate_const o_def)
  have lQ: "\<forall>x \<in> set (qdists Q). x = d \<or> x = d + 1" "sorted (qdists Q)"
    using l by (simp_all add: level_inv_def qdists_def)
  have A1: "\<forall>x \<in> set (qdists (Q @ ?new)). x = d \<or> x = d + 1"
    using lQ(1) unfolding qd by auto
  have A2: "sorted (qdists (Q @ ?new))"
    using lQ unfolding qd by (auto simp: sorted_append)
  have E3: "\<forall>k s. int k < d \<longrightarrow> reach m req start k s \<longrightarrow> s \<in> ?V"
    using l unfolding level_inv_def by blast
  have E4: "\<forall>s. reach m req start (nat d) s \<longrightarrow> s \<in> ?V \<or> (fst s, snd s, d) \<in> set (Q @ ?new)"
  proof (intro allI impI)
    fix s assume "reach m req start (nat d) s"
    then have "s \<in> V \<or> (fst s, snd s, d) \<in> set ((r, i, d) # Q)"
      using l unfolding level_inv_def by blast
    then show "s \<in> ?V \<or> (fst s, snd s, d) \<in> set (Q @ ?new)"
      by (cases s) auto
  qed
  have "level_inv m req start d ?V (Q @ ?new)"
    using d0 A1 A2 E3 E4 by (simp add: level_inv_def)
  moreover have "base_inv m req start ?V (Q @ ?new)"
    using B C unfolding base_inv_def by blast
  ultimately show ?thesis by (auto simp: bfs_inv_def)
qed

lemma found:
  assumes inv: "bfs_inv m req start V ((r, i, d) # Q)"
    and room: "dict_get (rooms m) r = Some room"
    and g: "goal req (item room) (collect req (item room) i)"
  shows "0 \<le> d \<and> reach m req start (nat d) (r, i) \<and> solved m req (r, i) \<and>
         (\<forall>k s. reach m req start k s \<and> solved m req s \<longrightarrow> nat d \<le> k)"
proof -
  have b: "base_inv m req start V ((r, i, d) # Q)" using inv by (simp add: bfs_inv_def)
  obtain D where "level_inv m req start D V ((r, i, d) # Q)" using inv by (auto simp: bfs_inv_def)
  then have l: "level_inv m req start d V ((r, i, d) # Q)" using normalize[OF b] by blast
  have d0: "0 \<le> d" and rd: "reach m req start (nat d) (r, i)"
    using b by (auto simp: base_inv_def)
  have s: "solved m req (r, i)" using room g by (simp add: solved_def)
  have "nat d \<le> k" if "reach m req start k s" "solved m req s" for k s
  proof (rule ccontr)
    assume "\<not> nat d \<le> k"
    then have "int k < d" by linarith
    then have "s \<in> V" using l that(1) unfolding level_inv_def by blast
    then show False using b that(2) unfolding base_inv_def by blast
  qed
  then show ?thesis using d0 rd s by blast
qed

lemma exhausted:
  assumes inv: "bfs_inv m req start V []"
  shows "\<not> (reach m req start k s \<and> solved m req s)"
proof -
  have b: "base_inv m req start V []" using inv by (simp add: bfs_inv_def)
  obtain D where l: "level_inv m req start D V []" using inv by (auto simp: bfs_inv_def)
  have start: "(start, {||}) \<in> V"
  proof (cases "D = 0")
    case True
    then show ?thesis using l by (auto simp: level_inv_def reach_0)
  next
    case False
    then have "int 0 < D" using l by (simp add: level_inv_def)
    then show ?thesis using l reach_0[of m req start "(start, {||})"]
      unfolding level_inv_def by blast
  qed
  have "reach m req start k s \<Longrightarrow> s \<in> V" for k s
  proof (induction k arbitrary: s)
    case 0
    then show ?case using start by (simp add: reach_0)
  next
    case (Suc k)
    then obtain p where "reach m req start k p" "step m req p s" by (auto simp: reach_Suc)
    then have "p \<in> V" "step m req p s" using Suc.IH by blast+
    moreover have "qstates [] = {}" by (simp add: qstates_def)
    ultimately show ?case using b unfolding base_inv_def by blast
  qed
  then show ?thesis using b unfolding base_inv_def by blast
qed

lemma bfs_correct:
  "bfs_inv m req start V Q \<Longrightarrow>
   (\<forall>n. bfs m req V Q = Inr n \<longrightarrow>
      0 \<le> n \<and> (\<exists>s. reach m req start (nat n) s \<and> solved m req s) \<and>
      (\<forall>k s. reach m req start k s \<and> solved m req s \<longrightarrow> nat n \<le> k)) \<and>
   (bfs m req V Q = Inl (LevelValidationError LevelNotSolvable) \<longrightarrow>
      (\<forall>k s. \<not> (reach m req start k s \<and> solved m req s)))"
proof (induction m req V Q rule: bfs.induct)
  case (1 m req V)
  then show ?case using exhausted by auto
next
  case (2 m req V room items dst queue)
  show ?case
  proof (cases "(room, items) \<in> V")
    case True
    from 2(1)[OF True pop_visited[OF 2(3) True]] True show ?thesis by simp
  next
    case False
    show ?thesis
    proof (cases "dict_get (rooms m) room")
      case None
      with False show ?thesis by simp
    next
      case (Some r)
      show ?thesis
      proof (cases "goal req (item r) (collect req (item r) items)")
        case True
        from found[OF 2(3) Some True] False Some True show ?thesis by auto
      next
        case g: False
        have nb: "neighbors m room = Inr (exits r)" using Some by (simp add: neighbors_def)
        from 2(2)[OF False Some refl g nb expand[OF 2(3) Some g]] False Some g nb
        show ?thesis by simp
      qed
    qed
  qed
qed

lemma bfs_inv_initial: "bfs_inv m req start {} [(start, {||}, 0)]"
  by (auto simp: bfs_inv_def base_inv_def level_inv_def qdists_def reach_0)

lemma search_wins_reach:
  "(\<exists>s. reach m req start k s \<and> solved m req s) \<longleftrightarrow>
   (\<exists>ds. length ds = k \<and> search_wins m req start ds)"
proof
  assume "\<exists>s. reach m req start k s \<and> solved m req s"
  then obtain s ds where "length ds = k" "trace m req (start, {||}) ds = Some s" "solved m req s"
    unfolding reach_def by blast
  then have "length ds = k \<and> search_wins m req start ds" by (simp add: search_wins_def)
  then show "\<exists>ds. length ds = k \<and> search_wins m req start ds" by blast
next
  assume "\<exists>ds. length ds = k \<and> search_wins m req start ds"
  then obtain ds where l: "length ds = k" and w: "search_wins m req start ds" by blast
  from w obtain s where "trace m req (start, {||}) ds = Some s" "solved m req s"
    by (auto simp: search_wins_def split: option.splits)
  with l have "reach m req start k s \<and> solved m req s" unfolding reach_def by blast
  then show "\<exists>s. reach m req start k s \<and> solved m req s" by blast
qed

lemma compute_optimal_moves_shortest:
  assumes "compute_optimal_moves m start req = Inr n"
  shows "0 \<le> n \<and> (\<exists>ds. length ds = nat n \<and> search_wins m req start ds) \<and>
         (\<forall>ds. search_wins m req start ds \<longrightarrow> nat n \<le> length ds)"
proof -
  from bfs_correct[OF bfs_inv_initial, of m req start] assms
  have n: "0 \<le> n" and ex: "\<exists>s. reach m req start (nat n) s \<and> solved m req s"
    and mn: "\<And>k s. reach m req start k s \<Longrightarrow> solved m req s \<Longrightarrow> nat n \<le> k"
    unfolding compute_optimal_moves_def by blast+
  have "nat n \<le> length ds" if "search_wins m req start ds" for ds
  proof -
    from that have "\<exists>s. reach m req start (length ds) s \<and> solved m req s"
      unfolding search_wins_reach by blast
    then show ?thesis using mn by blast
  qed
  then show ?thesis using n ex unfolding search_wins_reach by blast
qed

lemma compute_optimal_moves_unsolvable:
  assumes "compute_optimal_moves m start req = Inl (LevelValidationError LevelNotSolvable)"
  shows "\<not> search_wins m req start ds"
proof
  assume "search_wins m req start ds"
  then have "\<exists>s. reach m req start (length ds) s \<and> solved m req s"
    unfolding search_wins_reach by blast
  moreover from bfs_correct[OF bfs_inv_initial, of m req start] assms
  have "\<forall>k s. \<not> (reach m req start k s \<and> solved m req s)"
    unfolding compute_optimal_moves_def by blast
  ultimately show False by blast
qed

lemma trace_room: "map_option fst (trace m req (r, i) ds) = run_moves m r ds"
  by (induction ds arbitrary: r i) (auto simp: move_graph_def split: option.splits)

lemma from_definition_optimal:
  assumes "from_definition defn = Inr level"
  shows "\<exists>n. optimal_moves level = Some n \<and>
     compute_optimal_moves (level_map level) (start_room level) (required_items (rules level)) = Inr n"
  using assms
  by (auto simp: from_definition_def Let_def split: sum.splits option.splits prod.splits)

section \<open>Levels the factory accepts\<close>

lemmas factory_eval =
  from_definition_def validate_level_definition_def missing_keys_def absent_def
  dict_contains_def dict_get_def dict_items_def dict_keys_def dict_values_def exits_or_empty_def
  villains_def holds_villain_def build_item_def compute_optimal_moves_def collect_def goal_def
  neighbors_def Difficulty_of_value_def

lemma decoy_accepted: "from_definition decoy_level = Inr decoy_built"
  by (simp add: decoy_level_def decoy_rooms_def line_coords_def decoy_built_def factory_eval)

lemma stranded_accepted: "from_definition stranded_level = Inr stranded_built"
  by (simp add: stranded_level_def line_coords_def stranded_built_def factory_eval)

lemma vault_accepted:
  "from_definition (vault_level ''easy'') = Inr (vault_built EASY)"
  "from_definition (vault_level ''medium'') = Inr (vault_built MEDIUM)"
  "from_definition (vault_level ''hard'') = Inr (vault_built HARD)"
  by (simp_all add: vault_level_def vault_built_def vault_map_def factory_eval)

text \<open>
  C1. At the definition \<open>decoy_level\<close> the factory returns a level with
  \<open>optimal_moves = 1\<close>: the search stops in the room whose item is \<^emph>\<open>named\<close> Villain,
  which here is a relic. No sequence of exactly one valid move from the start room ends
  in the room holding the villain item; the villain's room is two moves away.
\<close>

theorem optimal_moves_decoy:
  "from_definition decoy_level = Inr decoy_built \<and>
   optimal_moves decoy_built = Some 1 \<and>
   (\<nexists>ds. length ds = 1 \<and>
      (\<exists>r. run_moves (level_map decoy_built) (start_room decoy_built) ds = Some r \<and>
           holds_villain_item (level_map decoy_built) r)) \<and>
   run_moves (level_map decoy_built) (start_room decoy_built) [''East'', ''East''] = Some ''Lair'' \<and>
   holds_villain_item (level_map decoy_built) ''Lair''"
proof -
  have "\<not> holds_villain_item (level_map decoy_built) r"
    if "run_moves (level_map decoy_built) (start_room decoy_built) [d] = Some r" for d r
    using that
    by (cases "d = ''East''")
       (auto simp: decoy_built_def move_graph_def dict_get_def holds_villain_item_def)
  then have "\<nexists>ds. length ds = 1 \<and>
      (\<exists>r. run_moves (level_map decoy_built) (start_room decoy_built) ds = Some r \<and>
           holds_villain_item (level_map decoy_built) r)"
    by (auto simp: length_Suc_conv)
  moreover have "run_moves (level_map decoy_built) (start_room decoy_built) [''East'', ''East'']
      = Some ''Lair''"
    by (simp add: decoy_built_def move_graph_def dict_get_def)
  moreover have "holds_villain_item (level_map decoy_built) ''Lair''"
    by (simp add: decoy_built_def holds_villain_item_def dict_get_def)
  moreover have "optimal_moves decoy_built = Some 1" by (simp add: decoy_built_def)
  ultimately show ?thesis using decoy_accepted by blast
qed

lemma stranded_reach:
  "r \<in> {''Start'', ''Decoy''} \<Longrightarrow> run_moves (level_map stranded_built) r ds = Some r' \<Longrightarrow>
   r' \<in> {''Start'', ''Decoy''}"
proof (induction ds arbitrary: r)
  case Nil
  then show ?case by simp
next
  case (Cons d ds)
  from Cons.prems obtain nxt where
    step: "move_graph (level_map stranded_built) r d = Inr (Some nxt)"
    and rest: "run_moves (level_map stranded_built) nxt ds = Some r'"
    by (auto split: sum.splits option.splits)
  from step Cons.prems(1) have "nxt \<in> {''Start'', ''Decoy''}"
    by (auto simp: stranded_built_def move_graph_def dict_get_def split: if_splits)
  then show ?case using Cons.IH rest by blast
qed

text \<open>
  C6. At the definition \<open>stranded_level\<close> no sequence of valid moves from the start room
  reaches the room holding the villain item, yet the factory returns a level instead of
  failing with a validation error.
\<close>

theorem unsolvable_level_accepted:
  "from_definition stranded_level = Inr stranded_built \<and>
   holds_villain_item (level_map stranded_built) ''Lair'' \<and>
   \<not> holds_villain_item (level_map stranded_built) ''Start'' \<and>
   \<not> holds_villain_item (level_map stranded_built) ''Decoy'' \<and>
   (\<nexists>ds r. run_moves (level_map stranded_built) (start_room stranded_built) ds = Some r \<and>
      holds_villain_item (level_map stranded_built) r)"
proof -
  have "\<not> holds_villain_item (level_map stranded_built) r"
    if "run_moves (level_map stranded_built) (start_room stranded_built) ds = Some r" for ds r
  proof -
    have "start_room stranded_built \<in> {''Start'', ''Decoy''}" by (simp add: stranded_built_def)
    then have "r \<in> {''Start'', ''Decoy''}" using that by (rule stranded_reach)
    then show ?thesis
      by (auto simp: holds_villain_item_def stranded_built_def dict_get_def)
  qed
  then have "\<nexists>ds r. run_moves (level_map stranded_built) (start_room stranded_built) ds = Some r \<and>
      holds_villain_item (level_map stranded_built) r" by blast
  moreover have "holds_villain_item (level_map stranded_built) ''Lair''"
    "\<not> holds_villain_item (level_map stranded_built) ''Start''"
    "\<not> holds_villain_item (level_map stranded_built) ''Decoy''"
    by (simp_all add: holds_villain_item_def stranded_built_def dict_get_def)
  ultimately show ?thesis using stranded_accepted by blast
qed

section \<open>Wall bumps\<close>

lemmas source_eval = require_level_def then_level_def as_level_def truthy_def

text \<open>
  On a level source that hands out a \<^verbatim>\<open>Level\<close> object, a move in a direction that is
  not a declared exit of the current room changes only message and event log and
  overwrites the active-session record.
\<close>

lemma wall_bump_on_level_object:
  assumes "\<not> is_terminal (status state)"
    and "levels lid = Some (LevelObject level)"
    and "dict_get (rooms (level_map level)) (location (player state)) = Some room"
    and "\<not> dict_contains direction (exits room)"
    and "state' = state\<lparr>message := Some ''You bumped into a wall.'',
                          event_log := event_log state @ [''Bumped into a wall'']\<rparr>"
  shows "move levels now user lid state direction repos =
           (None, state',
            repos\<lparr>saves := (saves repos)(user \<mapsto>
              \<lparr>save_user_email = user, save_level_id = lid, save_state = state',
               save_created_at = now, save_updated_at = now\<rparr>)\<rparr>) \<and>
         status state' = status state \<and> move_count state' = move_count state \<and>
         player state' = player state \<and> visited_rooms state' = visited_rooms state \<and>
         collected_items state' = collected_items state \<and>
         message state' = Some ''You bumped into a wall.'' \<and>
         event_log state' = event_log state @ [''Bumped into a wall'']"
  using assms
  by (simp add: move_def source_eval dict_contains_def autosave_def Let_def)

lemma wall_bump_on_level_object_example:
  "move (vault_repo MEDIUM) 2 ''ann'' ''vault'' in_vault ''North'' no_repos =
     (None,
      in_vault\<lparr>message := Some ''You bumped into a wall.'',
                event_log := event_log in_vault @ [''Bumped into a wall'']\<rparr>,
      no_repos\<lparr>saves := (saves no_repos)(''ann'' \<mapsto>
        \<lparr>save_user_email = ''ann'', save_level_id = ''vault'',
         save_state = in_vault\<lparr>message := Some ''You bumped into a wall.'',
                                event_log := event_log in_vault @ [''Bumped into a wall'']\<rparr>,
         save_created_at = 2, save_updated_at = 2\<rparr>)\<rparr>)"
  using wall_bump_on_level_object
          [of in_vault "vault_repo MEDIUM" "''vault''" "vault_built MEDIUM"
              "\<lparr>room_name = ''Vault'', exits = [(''East'', ''End''), (''West'', ''Start'')],
                item = Some (Relic ''X'')\<rparr>"
              "''North''"
              "in_vault\<lparr>message := Some ''You bumped into a wall.'',
                        event_log := event_log in_vault @ [''Bumped into a wall'']\<rparr>"
              2 "''ann''" no_repos]
  by (simp add: in_vault_def vault_repo_def vault_built_def vault_map_def is_terminal_def
      dict_contains_def dict_get_def)

text \<open>
  The level repositories of the code base hand out the raw definition. On it the
  controller's \<^verbatim>\<open>level.map\<close> raises before any exit is looked at, whatever the
  direction; state and stores stay as they were.
\<close>

lemma InMemoryLevelRepository_get_raw:
  "InMemoryLevelRepository_get lvls lid = Some v \<Longrightarrow>
   \<exists>d. v = RawDefinition d \<and> def_id d = Some lid"
  by (auto simp: InMemoryLevelRepository_get_def find_Some_iff)

lemma truthy_raw: "def_id d = Some lid \<Longrightarrow> truthy (RawDefinition d)"
proof -
  assume "def_id d = Some lid"
  then have "length (missing_keys d) \<le> 6"
    by (simp add: missing_keys_def absent_def split: option.splits)
  then show ?thesis by (simp add: truthy_def)
qed

lemma move_on_level_repository:
  assumes "\<not> is_terminal (status state)"
  shows "move (InMemoryLevelRepository_get lvls) now user lid state direction repos =
           (Some (case InMemoryLevelRepository_get lvls lid of
                    None \<Rightarrow> ValueError lid
                  | Some v \<Rightarrow> AttributeError ''map''),
            state, repos)"
proof (cases "InMemoryLevelRepository_get lvls lid")
  case None
  then show ?thesis using assms by (simp add: move_def require_level_def then_level_def)
next
  case (Some v)
  then obtain d where v: "v = RawDefinition d" and i: "def_id d = Some lid"
    using InMemoryLevelRepository_get_raw by blast
  have "truthy (RawDefinition d)" using i by (rule truthy_raw)
  then show ?thesis using assms Some v
    by (simp add: move_def require_level_def then_level_def as_level_def)
qed

text \<open>
  C5. The controller is given the in-memory level repository of the code base, holding
  the definition \<open>vault_level\<close>; the state is non-terminal, in the vault, and North is not
  a declared exit of the vault. \<^verbatim>\<open>GameController.move\<close> with direction North raises
  \<^verbatim>\<open>AttributeError\<close> at \<^verbatim>\<open>level.map\<close>, since the repository returned the raw
  definition: the message is not set, no entry is appended to the event log, and no
  active-session record is stored.
\<close>

theorem move_wall_bump_level_repository:
  "vault_source ''vault'' = Some (RawDefinition (vault_level ''medium'')) \<and>
   from_definition (vault_level ''medium'') = Inr (vault_built MEDIUM) \<and>
   \<not> is_terminal (status in_vault) \<and>
   move_graph (level_map (vault_built MEDIUM)) (location (player in_vault)) ''North'' = Inr None \<and>
   move vault_source 2 ''ann'' ''vault'' in_vault ''North'' no_repos =
     (Some (AttributeError ''map''), in_vault, no_repos) \<and>
   message in_vault = None \<and> saves no_repos ''ann'' = None"
proof -
  have src: "vault_source ''vault'' = Some (RawDefinition (vault_level ''medium''))"
    by (simp add: vault_source_def InMemoryLevelRepository_get_def vault_level_def)
  have nt: "\<not> is_terminal (status in_vault)"
    by (simp add: is_terminal_def in_vault_def)
  have "move vault_source 2 ''ann'' ''vault'' in_vault ''North'' no_repos =
          (Some (AttributeError ''map''), in_vault, no_repos)"
    using move_on_level_repository[OF nt, of "[vault_level ''medium'']" 2 "''ann''" "''vault''"
            "''North''" no_repos] src
    by (simp add: vault_source_def)
  moreover have "move_graph (level_map (vault_built MEDIUM)) (location (player in_vault)) ''North''
      = Inr None"
    by (simp add: move_graph_def vault_built_def vault_map_def in_vault_def dict_get_def)
  moreover have "message in_vault = None" "saves no_repos ''ann'' = None"
    by (simp_all add: in_vault_def no_repos_def)
  ultimately show ?thesis using src nt vault_accepted(2) by simp
qed

section \<open>Scoring formulas\<close>

text \<open>
  What the two strategies compute where they return: the progress score, the completed
  score for a level whose \<open>difficulty\<close> is a key of the multiplier table, and the
  relation between the penalized and the baseline score.
\<close>

lemma py_int_nonneg: "0 \<le> x \<Longrightarrow> py_int x = \<lfloor>x\<rfloor>"
  by (simp add: py_int_def)

lemma progress_score_floor:
  "progress_score state level =
     (if fcard (required_items (rules level)) = 0 then 0
      else \<lfloor>500 * real (fcard (collected_items state))
                 / real (fcard (required_items (rules level)))\<rfloor>)"
  by (simp add: progress_score_def MAX_PROGRESS_SCORE_def py_int_nonneg Let_def)

lemma progress_score_nonneg: "0 \<le> progress_score state level"
  by (simp add: progress_score_floor)

lemma StandardScore_not_completed:
  "status state \<noteq> COMPLETED \<Longrightarrow>
   StandardScore_calculate state level =
     Inr (if fcard (required_items (rules level)) = 0 then 0
          else \<lfloor>500 * real (fcard (collected_items state))
                     / real (fcard (required_items (rules level)))\<rfloor>)"
  by (simp add: StandardScore_calculate_def progress_score_floor)

lemma multiplier_of_string:
  "dict_get DIFFICULTY_MULTIPLIER (PyStr ''easy'') = Some (3 / 4)"
  "dict_get DIFFICULTY_MULTIPLIER (PyStr ''medium'') = Some 1"
  "dict_get DIFFICULTY_MULTIPLIER (PyStr ''hard'') = Some (5 / 4)"
  "dict_get DIFFICULTY_MULTIPLIER (PyDifficulty d) = None"
  by (simp_all add: DIFFICULTY_MULTIPLIER_def dict_get_def)

lemma multiplier_nonneg: "dict_get DIFFICULTY_MULTIPLIER k = Some mult \<Longrightarrow> 0 \<le> mult"
  by (auto simp: DIFFICULTY_MULTIPLIER_def dict_get_def split: if_splits)

lemma StandardScore_completed:
  assumes "status state = COMPLETED" "optimal_moves level = Some opt" "0 \<le> opt"
    and "0 < move_count state"
    and "dict_get DIFFICULTY_MULTIPLIER (difficulty level) = Some mult"
  shows "StandardScore_calculate state level =
     Inr (1000 + progress_score state level +
          \<lfloor>real_of_int \<lfloor>1000 * min (real_of_int opt / real_of_int (move_count state)) 1\<rfloor> * mult\<rfloor>)"
proof -
  let ?eff = "min (real_of_int opt / real_of_int (move_count state)) 1"
  have eff: "0 \<le> ?eff" using assms(3,4) by simp
  then have es: "py_int (real_of_int MAX_EFFICIENCY_SCORE * ?eff) = \<lfloor>1000 * ?eff\<rfloor>"
    by (simp add: py_int_nonneg MAX_EFFICIENCY_SCORE_def)
  have "0 \<le> \<lfloor>1000 * ?eff\<rfloor>" using eff by simp
  then have nn: "0 \<le> real_of_int \<lfloor>1000 * ?eff\<rfloor> * mult"
    using multiplier_nonneg[OF assms(5)] by simp
  have "py_int (real_of_int (WIN_BASE + progress_score state level)
                + real_of_int \<lfloor>1000 * ?eff\<rfloor> * mult)
        = \<lfloor>real_of_int (1000 + progress_score state level)
                + real_of_int \<lfloor>1000 * ?eff\<rfloor> * mult\<rfloor>"
    using nn progress_score_nonneg[of state level]
    by (simp add: py_int_nonneg WIN_BASE_def)
  also have "\<dots> = 1000 + progress_score state level + \<lfloor>real_of_int \<lfloor>1000 * ?eff\<rfloor> * mult\<rfloor>"
    by (metis floor_add_int add.commute)
  finally show ?thesis
    using assms es by (simp add: StandardScore_calculate_def Let_def)
qed

lemma StandardScore_no_zero_division:
  "status state \<noteq> COMPLETED \<or> 1 \<le> move_count state \<Longrightarrow>
   StandardScore_calculate state level \<noteq> Inl ZeroDivisionError"
  by (auto simp: StandardScore_calculate_def Let_def split: option.splits)

lemma StandardScore_returns_nonneg:
  assumes "StandardScore_calculate state level = Inr b"
    and "\<And>opt. optimal_moves level = Some opt \<Longrightarrow> 0 \<le> opt" "0 \<le> move_count state"
  shows "0 \<le> b"
proof (cases "status state = COMPLETED")
  case False
  then show ?thesis using assms(1) progress_score_nonneg[of state level]
    by (simp add: StandardScore_calculate_def)
next
  case True
  from assms(1) True obtain opt mult where o: "optimal_moves level = Some opt"
    and mc: "move_count state \<noteq> 0"
    and m: "dict_get DIFFICULTY_MULTIPLIER (difficulty level) = Some mult"
    by (auto simp: StandardScore_calculate_def Let_def split: option.splits if_splits)
  have "0 < move_count state" using mc assms(3) by simp
  from StandardScore_completed[OF True o assms(2)[OF o] this m] assms(1)
  have "b = 1000 + progress_score state level +
          \<lfloor>real_of_int \<lfloor>1000 * min (real_of_int opt / real_of_int (move_count state)) 1\<rfloor> * mult\<rfloor>"
    by simp
  moreover have "0 \<le> \<lfloor>real_of_int \<lfloor>1000 * min (real_of_int opt / real_of_int (move_count state)) 1\<rfloor> * mult\<rfloor>"
    using multiplier_nonneg[OF m] assms(2)[OF o] \<open>0 < move_count state\<close> by simp
  ultimately show ?thesis using progress_score_nonneg[of state level] by simp
qed

lemma MaxMovesScore_le_StandardScore:
  assumes "StandardScore_calculate state level = Inr b"
    and "\<And>opt. optimal_moves level = Some opt \<Longrightarrow> 0 < opt" "0 \<le> move_count state"
  shows "\<exists>m. MaxMovesScore_calculate state level = Inr m \<and> m \<le> b \<and> 0 \<le> m \<and>
     (\<not> (status state = COMPLETED \<and> (\<exists>opt. optimal_moves level = Some opt \<and> opt < move_count state))
        \<longrightarrow> m = b)"
proof -
  have b: "0 \<le> b"
    using StandardScore_returns_nonneg[OF assms(1) _ assms(3)] assms(2) by force
  show ?thesis
  proof (cases "status state = COMPLETED \<and> (\<exists>opt. optimal_moves level = Some opt \<and> opt < move_count state)")
    case False
    then show ?thesis using assms(1) b
      by (auto simp: MaxMovesScore_calculate_def split: option.splits)
  next
    case True
    then obtain opt where o: "optimal_moves level = Some opt" and lt: "opt < move_count state"
      and c: "status state = COMPLETED" by auto
    have pos: "0 < opt" using assms(2)[OF o] .
    let ?ratio = "min (real_of_int (move_count state - opt) / real_of_int opt) 1"
    have "0 \<le> ?ratio" using pos lt by simp
    then have "0 \<le> real_of_int b * ?ratio * OVERAGE_PENALTY_FACTOR"
      using b by (simp add: OVERAGE_PENALTY_FACTOR_def)
    then have "0 \<le> py_int (real_of_int b * ?ratio * OVERAGE_PENALTY_FACTOR)"
      by (simp add: py_int_nonneg)
    then show ?thesis using assms(1) o lt c pos b
      by (simp add: MaxMovesScore_calculate_def Let_def)
  qed
qed

lemma finalize_with_strategy:
  assumes "is_terminal (status state)" "levels lid = Some (LevelObject level)"
    and "scoring level = ScoreStrategyObject strategy"
    and "calculate strategy state level = Inr sc"
  shows "persist_or_finalize levels now user lid state repos =
     (None, state,
      repos\<lparr>history := history repos @
               [\<lparr>user_email = user, result_level_id = lid, result_status = status state,
                 score = sc, moves = move_count state,
                 items_collected = int (fcard (collected_items state)),
                 finished_at = now,
                 snapshot = Some
                   \<lparr>final_room = location (player state),
                    snapshot_inventory = sorted_list_of_fset (collected_items state),
                    snapshot_encountered_villain = encountered_villain state,
                    snapshot_optimal_moves = optimal_moves level\<rparr>\<rparr>],
            saves := (saves repos)(user := None)\<rparr>)"
  using assms
  by (simp add: persist_or_finalize_def source_eval attr_calculate_def)

lemma finalize_bound_method:
  assumes "is_terminal (status state)" "levels lid = Some (LevelObject level)"
    and "scoring level = BoundScoringPolicy d"
  shows "persist_or_finalize levels now user lid state repos =
     (Some (AttributeError ''calculate''), state, repos)"
  using assms
  by (simp add: persist_or_finalize_def source_eval attr_calculate_def)

lemma from_definition_scoring:
  "from_definition defn = Inr level \<Longrightarrow>
   (\<exists>d. scoring level = BoundScoringPolicy d \<and> difficulty level = PyDifficulty d)"
  by (auto simp: from_definition_def Let_def split: sum.splits option.splits prod.splits)

text \<open>
  On every level the factory builds, scoring a COMPLETED state and finalizing a terminal
  state raise; with an optimal move count of zero the penalty ratio divides by zero; and
  where only the villain is named Villain, the goal test of the search is the test for the
  villain's room.
\<close>

lemma StandardScore_completed_factory:
  assumes "from_definition defn = Inr level" "status state = COMPLETED" "move_count state \<noteq> 0"
  shows "StandardScore_calculate state level = Inl (KeyError ''difficulty'')"
proof -
  obtain d where "difficulty level = PyDifficulty d"
    using from_definition_scoring[OF assms(1)] by blast
  moreover obtain n where "optimal_moves level = Some n"
    using from_definition_optimal[OF assms(1)] by blast
  ultimately show ?thesis
    using assms(2,3) by (simp add: StandardScore_calculate_def multiplier_of_string)
qed

lemma MaxMovesScore_zero_optimal:
  assumes "StandardScore_calculate state level = Inr b" "status state = COMPLETED"
    and "optimal_moves level = Some 0" "0 < move_count state"
  shows "MaxMovesScore_calculate state level = Inl ZeroDivisionError"
  using assms by (simp add: MaxMovesScore_calculate_def)

lemma move_finalize_factory:
  assumes "from_definition defn = Inr level" "levels lid = Some (LevelObject level)"
    and "is_terminal (status state)"
  shows "persist_or_finalize levels now user lid state repos =
           (Some (AttributeError ''calculate''), state, repos)"
proof -
  obtain d where "scoring level = BoundScoringPolicy d"
    using from_definition_scoring[OF assms(1)] by blast
  with assms(3,2) show ?thesis by (rule finalize_bound_method)
qed

lemma solved_by_class:
  assumes "dict_get (rooms m) r = Some room"
    and "\<And>it. item room = Some it \<Longrightarrow> (item_name it = ''Villain'') = is_Villain (Some it)"
  shows "solved m req (r, i) \<longleftrightarrow>
           holds_villain_item m r \<and> req |\<subseteq>| collect req (item room) i"
  using assms by (auto simp: solved_def holds_villain_item_def goal_def split: option.splits)

section \<open>Finalization and scoring on a level built by the factory\<close>

text \<open>
  C2. On the level the factory builds from \<open>vault_level\<close>, the move that enters the
  villain's room with every required item makes the status COMPLETED; the controller
  then reads \<^verbatim>\<open>level.scoring.calculate\<close>, where \<^verbatim>\<open>level.scoring\<close> is the bound method
  \<^verbatim>\<open>difficulty.scoring_policy\<close>, and \<^verbatim>\<open>AttributeError\<close> is raised: no record is
  appended to the history and the active-session record stays as it was.
\<close>

theorem finalize_factory_level:
  "from_definition (vault_level ''medium'') = Inr (vault_built MEDIUM) \<and>
   \<not> is_terminal (status in_vault) \<and>
   move (vault_repo MEDIUM) 2 ''ann'' ''vault'' in_vault ''East'' saved_in_vault =
     (Some (AttributeError ''calculate''), won 2, saved_in_vault) \<and>
   is_terminal (status (won 2)) \<and>
   history saved_in_vault = [] \<and>
   saves saved_in_vault ''ann'' =
     Some \<lparr>save_user_email = ''ann'', save_level_id = ''vault'',
            save_state = in_vault, save_created_at = 1, save_updated_at = 1\<rparr>"
  by (simp add: vault_accepted move_def vault_repo_def vault_built_def vault_map_def
      saved_in_vault_def in_vault_def won_def is_terminal_def source_eval dict_get_def
      visit_def check_def persist_or_finalize_def attr_calculate_def Let_def finsert_commute)

text \<open>
  C3. On the level the factory builds from \<open>vault_level\<close> and a COMPLETED state with two
  moves, \<^verbatim>\<open>StandardScore.calculate\<close> raises \<^verbatim>\<open>KeyError\<close>: the multiplier table is keyed
  by the strings easy, medium and hard, and is indexed with the \<^verbatim>\<open>Difficulty\<close> member.
\<close>

theorem StandardScore_factory_level:
  "from_definition (vault_level ''medium'') = Inr (vault_built MEDIUM) \<and>
   status (won 2) = COMPLETED \<and>
   StandardScore_calculate (won 2) (vault_built MEDIUM) = Inl (KeyError ''difficulty'')"
  by (simp add: vault_accepted won_def vault_built_def StandardScore_calculate_def
      DIFFICULTY_MULTIPLIER_def dict_get_def)

text \<open>
  C8. On the hard level the factory builds from \<open>vault_level\<close> and a COMPLETED state with
  four moves, two more than optimal, \<^verbatim>\<open>MaxMovesScore.calculate\<close> returns no value: the
  \<^verbatim>\<open>KeyError\<close> of the baseline calculation propagates.
\<close>

theorem MaxMovesScore_factory_level:
  "from_definition (vault_level ''hard'') = Inr (vault_built HARD) \<and>
   status (won 4) = COMPLETED \<and> optimal_moves (vault_built HARD) = Some 2 \<and>
   move_count (won 4) = 4 \<and>
   calculate (scoring_policy HARD) (won 4) (vault_built HARD) = Inl (KeyError ''difficulty'') \<and>
   calculate StandardScore (won 4) (vault_built HARD) = Inl (KeyError ''difficulty'')"
  by (simp add: vault_accepted won_def vault_built_def StandardScore_calculate_def
      MaxMovesScore_calculate_def DIFFICULTY_MULTIPLIER_def dict_get_def)

text \<open>
  C10. On the easy level the factory builds from \<open>vault_level\<close> and a COMPLETED state
  with three moves, so that the precondition holds, \<^verbatim>\<open>StandardScore.calculate\<close> divides
  by no zero and still returns no value: it raises \<^verbatim>\<open>KeyError\<close>.
\<close>

theorem StandardScore_not_total:
  "from_definition (vault_level ''easy'') = Inr (vault_built EASY) \<and>
   1 \<le> move_count (won 3) \<and>
   StandardScore_calculate (won 3) (vault_built EASY) = Inl (KeyError ''difficulty'')"
  by (simp add: vault_accepted won_def vault_built_def StandardScore_calculate_def
      DIFFICULTY_MULTIPLIER_def dict_get_def)

end
